theory Spec2Isabelle
  imports Main "HOL-Library.Multiset"
begin

section \<open>Data model of \<^verbatim>\<open>app.py\<close>\<close>

text \<open>
  The script is re-executed from the top on every user interaction. One execution is
  modelled as a function from the widget values of that execution, the outcomes of the
  outside services and the state that survives between executions (the session state and
  the document collection) to the new state, the elements rendered and the requests sent.
\<close>

subsection \<open>Python values\<close>

text \<open>An exception is its class and the text \<^verbatim>\<open>str(e)\<close> gives.\<close>

datatype exc_class =
  KeyError | IndexError | TypeError | ValueError | AttributeError | HTTPError | LibraryError

datatype py_exc = Exc exc_class string

fun str_exc :: "py_exc \<Rightarrow> string" where
  "str_exc (Exc _ m) = m"

text \<open>
  What \<^verbatim>\<open>response.json()\<close> returns. A float keeps the text of its literal: its
  value plays no part in the script.
\<close>

datatype json =
    JNull
  | JBool bool
  | JInt int
  | JFloat string
  | JStr string
  | JArr "json list"
  | JObj "(string \<times> json) list"

fun type_name :: "json \<Rightarrow> string" where
  "type_name JNull = ''NoneType''"
| "type_name (JBool _) = ''bool''"
| "type_name (JInt _) = ''int''"
| "type_name (JFloat _) = ''float''"
| "type_name (JStr _) = ''str''"
| "type_name (JArr _) = ''list''"
| "type_name (JObj _) = ''dict''"

definition quote :: string where
  "quote = [CHR 0x27]"

definition dquote :: string where
  "dquote = [CHR 0x22]"

definition not_subscriptable :: "json \<Rightarrow> py_exc" where
  "not_subscriptable v = Exc TypeError (quote @ type_name v @ quote @ '' object is not subscriptable'')"

text \<open>\<^verbatim>\<open>v[k]\<close> for a string key \<open>k\<close>.\<close>

fun getitem_str :: "json \<Rightarrow> string \<Rightarrow> py_exc + json" where
  "getitem_str (JObj kvs) k =
     (case map_of kvs k of
        None \<Rightarrow> Inl (Exc KeyError (quote @ k @ quote))
      | Some v \<Rightarrow> Inr v)"
| "getitem_str (JArr _) k = Inl (Exc TypeError ''list indices must be integers or slices, not str'')"
| "getitem_str (JStr _) k = Inl (Exc TypeError (''string indices must be integers, not '' @ quote @ ''str'' @ quote))"
| "getitem_str v k = Inl (not_subscriptable v)"

text \<open>\<^verbatim>\<open>v[0]\<close>. The keys of a decoded JSON object are strings, so \<open>0\<close> is never one.\<close>

fun getitem_0 :: "json \<Rightarrow> py_exc + json" where
  "getitem_0 (JArr xs) =
     (case xs of [] \<Rightarrow> Inl (Exc IndexError ''list index out of range'') | x # _ \<Rightarrow> Inr x)"
| "getitem_0 (JObj _) = Inl (Exc KeyError ''0'')"
| "getitem_0 (JStr s) =
     (case s of [] \<Rightarrow> Inl (Exc IndexError ''string index out of range'') | c # _ \<Rightarrow> Inr (JStr [c]))"
| "getitem_0 v = Inl (not_subscriptable v)"

text \<open>Sequencing of steps that may raise: the first exception ends the block.\<close>

definition bind_exc :: "py_exc + 'a \<Rightarrow> ('a \<Rightarrow> py_exc + 'b) \<Rightarrow> py_exc + 'b" where
  "bind_exc r f = (case r of Inl e \<Rightarrow> Inl e | Inr v \<Rightarrow> f v)"

text \<open>Truthiness of an optional string: \<^verbatim>\<open>None\<close> and \<^verbatim>\<open>""\<close> are false.\<close>

fun truthy :: "string option \<Rightarrow> bool" where
  "truthy None = False"
| "truthy (Some s) = (s \<noteq> [])"

text \<open>\<^verbatim>\<open>str(n)\<close> for a natural number.\<close>

definition digit_char :: "nat \<Rightarrow> char" where
  "digit_char d = char_of (48 + d)"

function str_nat :: "nat \<Rightarrow> string" where
  "str_nat n = (if n < 10 then [digit_char n] else str_nat (n div 10) @ [digit_char (n mod 10)])"
  by pat_completeness auto
termination
  by (relation "measure id") auto

declare str_nat.simps [simp del]

text \<open>
  \<^verbatim>\<open>str.strip()\<close>: the characters Python counts as white space are removed from both
  ends. A character of a string is its code point, below 256; of these \<^verbatim>\<open>str.isspace\<close>
  holds for 9 to 13, 28 to 32, 133 (next line) and 160 (no-break space).
\<close>

definition is_space :: "char \<Rightarrow> bool" where
  "is_space c =
     (let n = (of_char c :: nat)
      in (9 \<le> n \<and> n \<le> 13) \<or> (28 \<le> n \<and> n \<le> 32) \<or> n = 133 \<or> n = 160)"

definition strip :: "string \<Rightarrow> string" where
  "strip s = rev (dropWhile is_space (rev (dropWhile is_space s)))"

text \<open>\<^verbatim>\<open>sep.join(parts)\<close>.\<close>

fun join :: "string \<Rightarrow> string list \<Rightarrow> string" where
  "join sep [] = []"
| "join sep [x] = x"
| "join sep (x # y # ys) = x @ sep @ join sep (y # ys)"

text \<open>\<^verbatim>\<open>s.split(" ")\<close>: every single space separates, empty pieces are kept.\<close>

fun split_at :: "char \<Rightarrow> string \<Rightarrow> string list" where
  "split_at d [] = [[]]"
| "split_at d (c # cs) =
     (if c = d then [] # split_at d cs
      else (case split_at d cs of [] \<Rightarrow> [[c]] | p # ps \<Rightarrow> (c # p) # ps))"

text \<open>
  \<^verbatim>\<open>int(s)\<close> on a string of decimal digits; anything else is a \<^verbatim>\<open>ValueError\<close>
  here. (Python also accepts a sign, surrounding white space and underscores; the
  script only ever parses the ordinal it printed itself.)
\<close>

definition is_digit :: "char \<Rightarrow> bool" where
  "is_digit c = (let n = (of_char c :: nat) in 48 \<le> n \<and> n \<le> 57)"

definition digits_value :: "string \<Rightarrow> nat" where
  "digits_value s = foldl (\<lambda>acc c. 10 * acc + (of_char c - 48)) 0 s"

definition int_of_str :: "string \<Rightarrow> py_exc + int" where
  "int_of_str s =
     (if s \<noteq> [] \<and> list_all is_digit s then Inr (int (digits_value s))
      else Inl (Exc ValueError (''invalid literal for int() with base 10: '' @ quote @ s @ quote)))"

text \<open>\<^verbatim>\<open>xs[i]\<close>: a negative index counts from the end.\<close>

definition list_get :: "'a list \<Rightarrow> int \<Rightarrow> py_exc + 'a" where
  "list_get xs i =
     (if 0 \<le> i \<and> i < int (length xs) then Inr (xs ! nat i)
      else if i < 0 \<and> - int (length xs) \<le> i then Inr (xs ! nat (int (length xs) + i))
      else Inl (Exc IndexError ''list index out of range''))"

subsection \<open>Session state, documents, widgets\<close>

datatype page = ExtractText | ChatWithData | DirectChat

fun page_name :: "page \<Rightarrow> string" where
  "page_name ExtractText = ''Extract Text''"
| "page_name ChatWithData = ''Chat with Prescription Data''"
| "page_name DirectChat = ''Direct Chat''"

record message =
  role :: string
  content :: json

text \<open>
  \<^verbatim>\<open>st.session_state\<close>. A field is \<open>None\<close> while its key is not in the session
  state; \<open>current_prescription\<close> can be present and hold Python's \<^verbatim>\<open>None\<close>.
\<close>

record session_state =
  page :: "page option"
  chat_history :: "message list option"
  current_prescription :: "string option option"

definition initial_session :: session_state where
  "initial_session = \<lparr>page = None, chat_history = None, current_prescription = None\<rparr>"

text \<open>A document of the collection; \<open>upload_date\<close> is a time stamp.\<close>

record prescription =
  doc_id :: string
  extracted_text :: string
  upload_date :: int

datatype collection = Collection string string

text \<open>The elements a run renders, in call order.\<close>

datatype ui =
    Title string
  | Write string
  | SidebarTitle string
  | Radio string "string list"
  | Success string
  | Warning string
  | Error string
  | Info string
  | Subheader string
  | FileUploader string
  | ImageEl string
  | Button string string
  | Columns nat
  | Spinner string
  | TextArea string string
  | Selectbox string "string list"
  | Expander string
  | ChatMessage string json
  | ChatInput string

text \<open>
  What the widgets return in one run. Streamlit decides these; the model takes any
  combination. \<open>select_index\<close> is the position of the chosen option of the select box.
\<close>

record widgets =
  radio :: page
  uploaded_file :: "string option"
  btn_extract :: bool
  btn_submit :: bool
  btn_view :: bool
  btn_chat :: bool
  btn_chat_no_db :: bool
  select_index :: nat
  chat_input :: "string option"
  btn_clear :: bool

record http_request =
  url :: string
  authorization :: string
  content_type :: string
  model :: string
  messages :: "(string \<times> string) list"
  temperature :: string
  max_tokens :: nat

record http_response =
  status_code :: nat
  reason :: string
  json_result :: "py_exc + json"

text \<open>
  The outside world during one run: configuration read from the environment and what each
  library call does. \<open>str_date\<close> is \<^verbatim>\<open>str\<close> of a \<^verbatim>\<open>datetime\<close>.
\<close>

record env =
  mistral_api_key :: "string option"
  db_ping :: "py_exc option"
  db_find :: "py_exc option"
  db_insert :: "py_exc + string"
  now :: int
  image_open :: "py_exc option"
  ocr :: "py_exc + string"
  post :: "http_request \<Rightarrow> py_exc + http_response"
  str_date :: "int \<Rightarrow> string"

text \<open>
  The running script: what persists (\<open>state\<close>, \<open>db\<close>) and what the run has produced so
  far (\<open>rendered\<close>, \<open>api_calls\<close>).
\<close>

record ctx =
  state :: session_state
  db :: "prescription list"
  rendered :: "ui list"
  api_calls :: "http_request list"

datatype ending = Finished | Rerun | Crashed py_exc

definition start :: "session_state \<Rightarrow> prescription list \<Rightarrow> ctx" where
  "start s d = \<lparr>state = s, db = d, rendered = [], api_calls = []\<rparr>"

definition emit :: "ui \<Rightarrow> ctx \<Rightarrow> ctx" where
  "emit u c = c\<lparr>rendered := rendered c @ [u]\<rparr>"

section \<open>The functions of \<^verbatim>\<open>app.py\<close>\<close>

subsection \<open>Collaborators\<close>

definition DB_NAME :: string where
  "DB_NAME = ''medical_prescriptions''"

definition COLLECTION_NAME :: string where
  "COLLECTION_NAME = ''extracted_texts''"

definition get_db_connection :: "env \<Rightarrow> ctx \<Rightarrow> collection option \<times> ctx" where
  "get_db_connection e c =
     (case db_ping e of
        None \<Rightarrow> (Some (Collection DB_NAME COLLECTION_NAME), emit (Success ''Database connection successful!'') c)
      | Some ex \<Rightarrow>
          (None, emit (Warning (''Database connection error: '' @ str_exc ex @ ''. Some features will be limited.'')) c))"

definition extract_text_from_image :: "env \<Rightarrow> ctx \<Rightarrow> string option \<times> ctx" where
  "extract_text_from_image e c =
     (case ocr e of
        Inr text \<Rightarrow> (Some (if text \<noteq> [] then strip text else ''No text detected''), c)
      | Inl ex \<Rightarrow> (None, emit (Error (''Error extracting text: '' @ str_exc ex)) c))"

definition save_to_database :: "env \<Rightarrow> string \<Rightarrow> collection \<Rightarrow> ctx \<Rightarrow> string option \<times> ctx" where
  "save_to_database e text col c =
     (let prescription_data = (\<lambda>i. \<lparr>doc_id = i, extracted_text = text, upload_date = now e\<rparr>)
      in case db_insert e of
           Inr inserted_id \<Rightarrow>
             (Some inserted_id,
              emit (Write (''Insert operation result: '' @ inserted_id))
                (c\<lparr>db := db c @ [prescription_data inserted_id]\<rparr>))
         | Inl ex \<Rightarrow> (None, emit (Error (''Error saving to database: '' @ str_exc ex)) c))"

text \<open>\<^verbatim>\<open>collection.find().sort("upload_date", -1)\<close>: newest first.\<close>

definition find_sorted :: "prescription list \<Rightarrow> prescription list" where
  "find_sorted ds = sort_key (\<lambda>p. - upload_date p) ds"

definition fetch_stored_prescriptions :: "env \<Rightarrow> collection \<Rightarrow> ctx \<Rightarrow> prescription list \<times> ctx" where
  "fetch_stored_prescriptions e col c =
     (case db_find e of
        None \<Rightarrow> (find_sorted (db c), c)
      | Some ex \<Rightarrow> ([], emit (Error (''Error fetching prescriptions: '' @ str_exc ex)) c))"

subsection \<open>The chat completion call\<close>

definition key_error_text :: string where
  "key_error_text = ''Error: Mistral API key not found. Please set it in the .env file.''"

definition system_message_for :: "string option \<Rightarrow> string" where
  "system_message_for prescription_data =
     (if truthy prescription_data then
        (let context = [CHR 0x0A] @ ''Prescription data: '' @ the prescription_data
         in ''You are a medical assistant that helps analyze prescription data. Answer questions based on the following prescription data:'' @ context)
      else ''You are a helpful medical assistant that can answer general medical questions. Note that you are not a replacement for professional medical advice.'')"

definition api_url :: string where
  "api_url = ''https://api.mistral.ai/v1/chat/completions''"

definition build_request :: "string \<Rightarrow> string \<Rightarrow> string option \<Rightarrow> http_request" where
  "build_request api_key prompt prescription_data =
     \<lparr>url = api_url,
      authorization = ''Bearer '' @ api_key,
      content_type = ''application/json'',
      model = ''mistral-large-latest'',
      messages = [(''system'', system_message_for prescription_data), (''user'', prompt)],
      temperature = ''0.7'',
      max_tokens = 500\<rparr>"

text \<open>\<^verbatim>\<open>response.raise_for_status()\<close>: statuses 400 to 599 raise.\<close>

definition raise_for_status :: "http_request \<Rightarrow> http_response \<Rightarrow> py_exc + unit" where
  "raise_for_status rq r =
     (if 400 \<le> status_code r \<and> status_code r < 500 then
        Inl (Exc HTTPError (str_nat (status_code r) @ '' Client Error: '' @ reason r @ '' for url: '' @ url rq))
      else if 500 \<le> status_code r \<and> status_code r < 600 then
        Inl (Exc HTTPError (str_nat (status_code r) @ '' Server Error: '' @ reason r @ '' for url: '' @ url rq))
      else Inr ())"

text \<open>\<^verbatim>\<open>result["choices"][0]["message"]["content"]\<close>.\<close>

definition completion_of :: "json \<Rightarrow> py_exc + json" where
  "completion_of result =
     bind_exc (getitem_str result ''choices'') (\<lambda>choices.
     bind_exc (getitem_0 choices) (\<lambda>choice.
     bind_exc (getitem_str choice ''message'') (\<lambda>msg.
     getitem_str msg ''content'')))"

text \<open>
  The body of the \<^verbatim>\<open>try\<close> block: the value returned or the exception raised, and
  the requests posted.
\<close>

definition query_mistral_api_try ::
  "env \<Rightarrow> string \<Rightarrow> string option \<Rightarrow> (py_exc + json) \<times> http_request list" where
  "query_mistral_api_try e prompt prescription_data =
     (if \<not> truthy (mistral_api_key e) then (Inr (JStr key_error_text), [])
      else
        (let rq = build_request (the (mistral_api_key e)) prompt prescription_data
         in (bind_exc (post e rq) (\<lambda>response.
             bind_exc (raise_for_status rq response) (\<lambda>_.
             bind_exc (json_result response) completion_of)),
             [rq])))"

definition query_mistral_api :: "env \<Rightarrow> string \<Rightarrow> string option \<Rightarrow> json \<times> http_request list" where
  "query_mistral_api e prompt prescription_data =
     (case query_mistral_api_try e prompt prescription_data of
        (Inr v, calls) \<Rightarrow> (v, calls)
      | (Inl ex, calls) \<Rightarrow> (JStr (''Error querying Mistral API: '' @ str_exc ex), calls))"

subsection \<open>The chat panel\<close>

definition set_history :: "message list \<Rightarrow> ctx \<Rightarrow> ctx" where
  "set_history h c = c\<lparr>state := (state c)\<lparr>chat_history := Some h\<rparr>\<rparr>"

definition history :: "ctx \<Rightarrow> message list" where
  "history c = (case chat_history (state c) of None \<Rightarrow> [] | Some h \<Rightarrow> h)"

definition append_message :: "string \<Rightarrow> json \<Rightarrow> ctx \<Rightarrow> ctx" where
  "append_message r v c = set_history (history c @ [\<lparr>role = r, content = v\<rparr>]) c"

definition display_chat_interface :: "widgets \<Rightarrow> env \<Rightarrow> string option \<Rightarrow> ctx \<Rightarrow> ctx \<times> ending" where
  "display_chat_interface w e prescription_data c0 =
     (let c1 = emit (Subheader (if truthy prescription_data then ''Chat with your Prescription Data''
                                else ''Direct Medical Chat'')) c0;
          c2 = (if chat_history (state c1) = None then set_history [] c1 else c1);
          c3 = foldl (\<lambda>c m. emit (ChatMessage (role m) (content m)) c) c2 (history c2);
          placeholder = (if truthy prescription_data then ''Ask about your prescription...''
                         else ''Ask any medical question...'');
          c4 = emit (ChatInput placeholder) c3;
          c5 = (if truthy (chat_input w) then
                  (let user_query = the (chat_input w);
                       a1 = append_message ''user'' (JStr user_query) c4;
                       a2 = emit (ChatMessage ''user'' (JStr user_query)) a1;
                       a3 = emit (Spinner ''Thinking...'') a2;
                       (response, calls) = query_mistral_api e user_query prescription_data;
                       a4 = a3\<lparr>api_calls := api_calls a3 @ calls\<rparr>;
                       a5 = append_message ''assistant'' response a4
                   in emit (ChatMessage ''assistant'' response) a5)
                else c4)
      in if history c5 \<noteq> [] then
           (let c6 = emit (Button ''Clear Chat History'' ''clear_chat_history_button'') c5
            in if btn_clear w then (set_history [] c6, Rerun) else (c6, Finished))
         else (c5, Finished))"

subsection \<open>The pages\<close>

definition set_page :: "page \<Rightarrow> ctx \<Rightarrow> ctx" where
  "set_page p c = c\<lparr>state := (state c)\<lparr>page := Some p\<rparr>\<rparr>"

definition set_current_prescription :: "string \<Rightarrow> ctx \<Rightarrow> ctx" where
  "set_current_prescription t c = c\<lparr>state := (state c)\<lparr>current_prescription := Some (Some t)\<rparr>\<rparr>"

text \<open>\<^verbatim>\<open>f"Prescription {idx + 1} - {prescription['upload_date']}"\<close> over \<^verbatim>\<open>enumerate\<close>.\<close>

definition option_label :: "env \<Rightarrow> nat \<times> prescription \<Rightarrow> string" where
  "option_label e ip = ''Prescription '' @ str_nat (fst ip + 1) @ '' - '' @ str_date e (upload_date (snd ip))"

text \<open>\<^verbatim>\<open>f"Prescription {idx + 1}:\n{prescription['extracted_text']}"\<close>.\<close>

definition all_entry :: "nat \<times> prescription \<Rightarrow> string" where
  "all_entry ip = ''Prescription '' @ str_nat (fst ip + 1) @ '':'' @ [CHR 0x0A] @ extracted_text (snd ip)"

definition all_prescriptions_text :: "prescription list \<Rightarrow> string" where
  "all_prescriptions_text prescriptions =
     join [CHR 0x0A, CHR 0x0A] (map all_entry (enumerate 0 prescriptions))"

text \<open>The three buttons under an extracted text, lines 206 to 255.\<close>

definition chat_with_this :: "string \<Rightarrow> ctx \<Rightarrow> ctx \<times> ending" where
  "chat_with_this text c = (set_page ChatWithData (set_current_prescription text c), Rerun)"

definition show_stored :: "env \<Rightarrow> prescription list \<Rightarrow> ctx \<Rightarrow> ctx" where
  "show_stored e prescriptions c =
     (if prescriptions \<noteq> [] then
        foldl (\<lambda>c ip. emit (TextArea (''Text '' @ str_nat (fst ip + 1)) (extracted_text (snd ip)))
                         (emit (Write (option_label e ip)) c))
          (emit (Subheader ''Stored Prescriptions'') c) (enumerate 0 prescriptions)
      else emit (Info ''No prescriptions found in database'') c)"

definition extracted_actions :: "widgets \<Rightarrow> env \<Rightarrow> collection option \<Rightarrow> string \<Rightarrow> ctx \<Rightarrow> ctx \<times> ending" where
  "extracted_actions w e collection text c0 =
     (let c1 = emit (Subheader ''Extracted Text'') c0;
          c2 = emit (TextArea ''Result'' text) c1
      in case collection of
           Some col \<Rightarrow>
             (let c3 = emit (Columns 3) c2;
                  c4 = emit (Button ''Submit to Database'' ''submit_to_db_button'') c3;
                  c5 = (if btn_submit w then
                          (let (result_id, s1) = save_to_database e text col (emit (Spinner ''Saving to database...'') c4)
                           in case result_id of
                                Some i \<Rightarrow> emit (Success (''Successfully saved! Document ID: '' @ i)) s1
                              | None \<Rightarrow> emit (Error ''Failed to save to database. Check MongoDB status.'') s1)
                        else c4);
                  c6 = emit (Button ''View Stored Prescriptions'' ''view_prescriptions_button'') c5;
                  c7 = (if btn_view w then
                          (let (prescriptions, f1) = fetch_stored_prescriptions e col (emit (Spinner ''Fetching prescriptions...'') c6)
                           in show_stored e prescriptions f1)
                        else c6);
                  c8 = emit (Button ''Chat with this Prescription'' ''chat_prescription_button'') c7
              in if btn_chat w then chat_with_this text c8 else (c8, Finished))
         | None \<Rightarrow>
             (let c3 = emit (Button ''Chat with this Prescription'' ''chat_prescription_no_db_button'') c2
              in if btn_chat_no_db w then chat_with_this text c3
                 else (emit (Warning (''Database connection failed. You can still chat with the prescription but it won'' @ quote @ ''t be saved.'')) c3,
                       Finished)))"

definition page_extract_text :: "widgets \<Rightarrow> env \<Rightarrow> collection option \<Rightarrow> ctx \<Rightarrow> ctx \<times> ending" where
  "page_extract_text w e collection c0 =
     (let c1 = emit (FileUploader ''Choose an image...'') c0
      in case uploaded_file w of
           None \<Rightarrow> (c1, Finished)
         | Some f \<Rightarrow>
             (case image_open e of
                Some ex \<Rightarrow> (c1, Crashed ex)
              | None \<Rightarrow>
                  (let c2 = emit (ImageEl ''Uploaded Prescription'') c1;
                       c3 = emit (Button ''Extract Text'' []) c2
                   in if btn_extract w then
                        (let (text, c4) = extract_text_from_image e (emit (Spinner ''Processing image...'') c3)
                         in if truthy text then extracted_actions w e collection (the text) c4
                            else (c4, Finished))
                      else (c3, Finished))))"

definition has_current_prescription :: "session_state \<Rightarrow> bool" where
  "has_current_prescription s =
     (case current_prescription s of None \<Rightarrow> False | Some v \<Rightarrow> truthy v)"

text \<open>
  The option list of the select box, lines 273 to 279: the per-record labels, then
  \<open>insert(0, ...)\<close> twice.
\<close>

definition prescription_options :: "env \<Rightarrow> session_state \<Rightarrow> prescription list \<Rightarrow> string list" where
  "prescription_options e s prescriptions =
     (let opts = ''All Prescriptions'' # map (option_label e) (enumerate 0 prescriptions)
      in if has_current_prescription s then ''Current Extracted Prescription'' # opts else opts)"

text \<open>
  The select box returns one of its options; a position past the end stands for the
  first one, the default of the widget.
\<close>

definition selected :: "string list \<Rightarrow> nat \<Rightarrow> string" where
  "selected opts i = (if i < length opts then opts ! i else hd opts)"

text \<open>
  \<^verbatim>\<open>st.session_state.current_prescription\<close>: a missing key is Streamlit's
  \<^verbatim>\<open>AttributeError\<close>.
\<close>

definition missing_attr_text :: "string \<Rightarrow> string" where
  "missing_attr_text attr =
     ''st.session_state has no attribute '' @ dquote @ attr @ dquote
     @ ''. Did you forget to initialize it? More info: https://docs.streamlit.io/develop/concepts/architecture/session-state#initialization''"

definition read_current :: "session_state \<Rightarrow> py_exc + string option" where
  "read_current s =
     (case current_prescription s of
        None \<Rightarrow> Inl (Exc AttributeError (missing_attr_text ''current_prescription''))
      | Some v \<Rightarrow> Inr v)"

text \<open>Lines 284 to 292: the prescription data of the chosen option.\<close>

definition data_of_selection :: "string \<Rightarrow> session_state \<Rightarrow> prescription list \<Rightarrow> py_exc + string option" where
  "data_of_selection selected_option s prescriptions =
     (if selected_option = ''All Prescriptions'' then Inr (Some (all_prescriptions_text prescriptions))
      else if selected_option = ''Current Extracted Prescription'' then read_current s
      else
        bind_exc (list_get (split_at CHR '' '' selected_option) 1) (\<lambda>ord.
        bind_exc (int_of_str ord) (\<lambda>n.
        bind_exc (list_get prescriptions (n - 1)) (\<lambda>p.
        Inr (Some (extracted_text p))))))"

definition str_or_empty :: "string option \<Rightarrow> string" where
  "str_or_empty v = (case v of None \<Rightarrow> [] | Some t \<Rightarrow> t)"

text \<open>Lines 308 to 313: the expander with the data, then the chat panel.\<close>

definition chat_panel :: "widgets \<Rightarrow> env \<Rightarrow> string option \<Rightarrow> ctx \<Rightarrow> ctx \<times> ending" where
  "chat_panel w e prescription_data c =
     display_chat_interface w e prescription_data
       (emit (TextArea ''Prescription Data'' (str_or_empty prescription_data))
          (emit (Expander ''View Selected Prescription Data'') c))"

text \<open>
  Lines 260 to 306: the prescription data the chat panel will get, or the way the page
  ends without one (the early \<^verbatim>\<open>return\<close>, or an exception nobody catches).
\<close>

definition use_current :: "ctx \<Rightarrow> (ending + string option) \<times> ctx" where
  "use_current c =
     (let c1 = emit (Info ''Using current extracted prescription data.'') c
      in case read_current (state c1) of
           Inl ex \<Rightarrow> (Inl (Crashed ex), c1)
         | Inr v \<Rightarrow> (Inr v, c1))"

definition resolve_prescription_data ::
  "widgets \<Rightarrow> env \<Rightarrow> collection option \<Rightarrow> ctx \<Rightarrow> (ending + string option) \<times> ctx" where
  "resolve_prescription_data w e collection c1 =
     (let has_current = has_current_prescription (state c1)
      in case collection of
           Some col \<Rightarrow>
             (let (prescriptions, c2) = fetch_stored_prescriptions e col c1
              in if prescriptions \<noteq> [] then
                   (let opts = prescription_options e (state c2) prescriptions;
                        c3 = emit (Selectbox ''Choose prescription data to query'' opts) c2
                    in case data_of_selection (selected opts (select_index w)) (state c3) prescriptions of
                         Inl ex \<Rightarrow> (Inl (Crashed ex), c3)
                       | Inr v \<Rightarrow> (Inr v, c3))
                 else if has_current then use_current c2
                 else (Inl Finished,
                       emit (Info ''No prescriptions found in database. Please extract text first or use Direct Chat.'') c2))
         | None \<Rightarrow>
             if has_current then use_current c1
             else (Inl Finished,
                   emit (Warning ''No prescription data available. Please extract text first or use Direct Chat.'') c1))"

definition page_chat_with_data :: "widgets \<Rightarrow> env \<Rightarrow> collection option \<Rightarrow> ctx \<Rightarrow> ctx \<times> ending" where
  "page_chat_with_data w e collection c0 =
     (let c1 = emit (Subheader ''Chat with Prescription Data'') c0;
          (r, c2) = resolve_prescription_data w e collection c1
      in case r of
           Inl en \<Rightarrow> (c2, en)
         | Inr prescription_data \<Rightarrow> chat_panel w e prescription_data c2)"

definition page_direct_chat :: "widgets \<Rightarrow> env \<Rightarrow> ctx \<Rightarrow> ctx \<times> ending" where
  "page_direct_chat w e c0 =
     (let c1 = emit (Subheader ''Direct Chat with Medical Assistant'') c0;
          c2 = emit (Write ''Chat directly with the medical assistant without any prescription data.'') c1
      in display_chat_interface w e None c2)"

subsection \<open>\<^verbatim>\<open>main\<close> and the script\<close>

definition all_pages :: "page list" where
  "all_pages = [ExtractText, ChatWithData, DirectChat]"

definition main :: "widgets \<Rightarrow> env \<Rightarrow> ctx \<Rightarrow> ctx \<times> ending" where
  "main w e c0 =
     (let c1 = emit (Title ''Medical Prescription Analyzer'') c0;
          c2 = emit (Write ''Upload a handwritten medical prescription to extract text or chat directly'') c1;
          c3 = emit (SidebarTitle ''Navigation'') c2;
          c4 = (if page (state c3) = None then set_page ExtractText c3 else c3);
          c5 = emit (Radio ''Go to'' (map page_name all_pages)) c4;
          selected_page = radio w
      in if Some selected_page \<noteq> page (state c5) then (set_page selected_page c5, Rerun)
         else
           (case selected_page of
              ExtractText \<Rightarrow>
                (let (collection, c6) = get_db_connection e c5
                 in page_extract_text w e collection c6)
            | ChatWithData \<Rightarrow>
                (let (collection, c6) = get_db_connection e c5;
                     c7 = (if collection = None then emit (Warning ''Database connection failed. Some features may be limited.'') c6
                           else c6)
                 in page_chat_with_data w e collection c7)
            | DirectChat \<Rightarrow> page_direct_chat w e c5))"

text \<open>
  The script's entry block sets \<open>current_prescription\<close> to \<^verbatim>\<open>None\<close> when the key is
  missing, then calls \<open>main\<close>.
\<close>

definition init_current :: "session_state \<Rightarrow> session_state" where
  "init_current s = (if current_prescription s = None then s\<lparr>current_prescription := Some None\<rparr> else s)"

definition script :: "widgets \<Rightarrow> env \<Rightarrow> session_state \<Rightarrow> prescription list \<Rightarrow> ctx \<times> ending" where
  "script w e s d = main w e (start (init_current s) d)"

section \<open>Vocabulary of the properties\<close>

text \<open>The chat history of a session state, empty while the key is missing.\<close>

definition session_history :: "session_state \<Rightarrow> message list" where
  "session_history s = (case chat_history s of None \<Rightarrow> [] | Some h \<Rightarrow> h)"

text \<open>The active prescription text: the string \<open>current_prescription\<close> holds, if it holds one.\<close>

definition active_text :: "session_state \<Rightarrow> string option" where
  "active_text s = (case current_prescription s of Some (Some t) \<Rightarrow> Some t | _ \<Rightarrow> None)"

text \<open>The two messages a submitted query adds, and the requests it sends.\<close>

definition user_message :: "string \<Rightarrow> message" where
  "user_message q = \<lparr>role = ''user'', content = JStr q\<rparr>"

definition assistant_message :: "json \<Rightarrow> message" where
  "assistant_message v = \<lparr>role = ''assistant'', content = v\<rparr>"

definition turn_messages :: "widgets \<Rightarrow> env \<Rightarrow> string option \<Rightarrow> message list" where
  "turn_messages w e prescription_data =
     (if truthy (chat_input w) then
        [user_message (the (chat_input w)),
         assistant_message (fst (query_mistral_api e (the (chat_input w)) prescription_data))]
      else [])"

definition turn_calls :: "widgets \<Rightarrow> env \<Rightarrow> string option \<Rightarrow> http_request list" where
  "turn_calls w e prescription_data =
     (if truthy (chat_input w) then snd (query_mistral_api e (the (chat_input w)) prescription_data) else [])"

text \<open>The history the chat panel leaves: the turn, then the clear button if it is there.\<close>

definition after_panel :: "widgets \<Rightarrow> env \<Rightarrow> string option \<Rightarrow> message list \<Rightarrow> message list" where
  "after_panel w e prescription_data h =
     (let h1 = h @ turn_messages w e prescription_data in if h1 \<noteq> [] \<and> btn_clear w then [] else h1)"

definition panel_ending :: "widgets \<Rightarrow> env \<Rightarrow> string option \<Rightarrow> message list \<Rightarrow> ending" where
  "panel_ending w e prescription_data h =
     (if h @ turn_messages w e prescription_data \<noteq> [] \<and> btn_clear w then Rerun else Finished)"

text \<open>The chat panel is on the page when its input box has been rendered.\<close>

fun is_chat_input :: "ui \<Rightarrow> bool" where
  "is_chat_input (ChatInput _) = True"
| "is_chat_input _ = False"

definition chat_panel_shown :: "ctx \<Rightarrow> bool" where
  "chat_panel_shown c = list_ex is_chat_input (rendered c)"

fun is_selectbox :: "ui \<Rightarrow> bool" where
  "is_selectbox (Selectbox _ _) = True"
| "is_selectbox _ = False"

fun is_button :: "ui \<Rightarrow> bool" where
  "is_button (Button _ _) = True"
| "is_button _ = False"

text \<open>The clear button is offered when it has been rendered.\<close>

definition clear_button :: ui where
  "clear_button = Button ''Clear Chat History'' ''clear_chat_history_button''"

definition clear_offered :: "ctx \<Rightarrow> bool" where
  "clear_offered c = (clear_button \<in> set (rendered c))"

text \<open>
  What a piece of the script does to the chat: with the panel on the page, the effect of
  the panel for some prescription data; without it, nothing.
\<close>

definition chat_effect :: "widgets \<Rightarrow> env \<Rightarrow> ctx \<Rightarrow> ctx \<times> ending \<Rightarrow> bool" where
  "chat_effect w e c r =
     (if chat_panel_shown (fst r) then
        (\<exists>pd. history (fst r) = after_panel w e pd (history c)
            \<and> api_calls (fst r) = api_calls c @ turn_calls w e pd
            \<and> snd r = panel_ending w e pd (history c)
            \<and> clear_offered (fst r) = (clear_offered c \<or> history c @ turn_messages w e pd \<noteq> []))
      else history (fst r) = history c \<and> api_calls (fst r) = api_calls c
           \<and> clear_offered (fst r) = clear_offered c)"

text \<open>A run is a completed chat turn when a query was submitted to a chat panel on the page.\<close>

definition completed_turn :: "widgets \<Rightarrow> env \<Rightarrow> session_state \<Rightarrow> prescription list \<Rightarrow> bool" where
  "completed_turn w e s d = (truthy (chat_input w) \<and> chat_panel_shown (fst (script w e s d)))"

text \<open>
  A session is a sequence of runs, each with its widget values and its outside world;
  the session state and the collection pass from one run to the next, however the run ends.
\<close>

fun run_session ::
  "session_state \<Rightarrow> prescription list \<Rightarrow> (widgets \<times> env) list \<Rightarrow> session_state \<times> prescription list" where
  "run_session s d [] = (s, d)"
| "run_session s d (x # xs) =
     (let c = fst (script (fst x) (snd x) s d) in run_session (state c) (db c) xs)"

fun count_turns :: "session_state \<Rightarrow> prescription list \<Rightarrow> (widgets \<times> env) list \<Rightarrow> nat" where
  "count_turns s d [] = 0"
| "count_turns s d (x # xs) =
     (let c = fst (script (fst x) (snd x) s d)
      in (if completed_turn (fst x) (snd x) s d then 1 else 0) + count_turns (state c) (db c) xs)"

text \<open>
  A run uses the clear control when the clear button is offered and pressed. The turns
  since the last clear: a run that uses the clear control starts the count again, any
  other run that is a completed chat turn adds one.
\<close>

definition clear_used :: "widgets \<Rightarrow> env \<Rightarrow> session_state \<Rightarrow> prescription list \<Rightarrow> bool" where
  "clear_used w e s d = (btn_clear w \<and> clear_offered (fst (script w e s d)))"

fun turns_since_clear ::
  "session_state \<Rightarrow> prescription list \<Rightarrow> (widgets \<times> env) list \<Rightarrow> nat \<Rightarrow> nat" where
  "turns_since_clear s d [] n = n"
| "turns_since_clear s d (x # xs) n =
     (let c = fst (script (fst x) (snd x) s d)
      in turns_since_clear (state c) (db c) xs
           (if clear_used (fst x) (snd x) s d then 0
            else n + (if completed_turn (fst x) (snd x) s d then 1 else 0)))"

fun alternating :: "message list \<Rightarrow> bool" where
  "alternating [] = True"
| "alternating [m] = False"
| "alternating (u # a # ms) = (role u = ''user'' \<and> role a = ''assistant'' \<and> alternating ms)"

text \<open>
  What the interface of the completion service says of a call. The request: a bearer
  credential, the model, a system and a user message, the temperature and the token limit,
  sent to the chat completions endpoint.
\<close>

definition expected_request :: "string \<Rightarrow> string \<Rightarrow> string \<Rightarrow> http_request" where
  "expected_request k sys q =
     \<lparr>url = ''https://api.mistral.ai/v1/chat/completions'',
      authorization = ''Bearer '' @ k,
      content_type = ''application/json'',
      model = ''mistral-large-latest'',
      messages = [(''system'', sys), (''user'', q)],
      temperature = ''0.7'',
      max_tokens = 500\<rparr>"

text \<open>
  The reply: a JSON object with the completion at \<^verbatim>\<open>choices[0].message.content\<close>. A member
  of an object, and the first item of a list (or of a string, which Python indexes too).
\<close>

definition member :: "string \<Rightarrow> json \<Rightarrow> json option" where
  "member k v = (case v of JObj kvs \<Rightarrow> map_of kvs k | _ \<Rightarrow> None)"

definition first_item :: "json \<Rightarrow> json option" where
  "first_item v =
     (case v of JArr (x # _) \<Rightarrow> Some x | JStr (c # _) \<Rightarrow> Some (JStr [c]) | _ \<Rightarrow> None)"

definition content_at :: "json \<Rightarrow> json option" where
  "content_at result =
     (case member ''choices'' result of
        None \<Rightarrow> None
      | Some choices \<Rightarrow>
          (case first_item choices of
             None \<Rightarrow> None
           | Some choice \<Rightarrow>
               (case member ''message'' choice of
                  None \<Rightarrow> None
                | Some msg \<Rightarrow> member ''content'' msg)))"

text \<open>
  The text of the exception Python raises where the path breaks: for a missing member
  \<open>k\<close> of \<open>v\<close>, and for a missing first item of \<open>v\<close>.
\<close>

definition no_member_text :: "string \<Rightarrow> json \<Rightarrow> string" where
  "no_member_text k v =
     (case v of
        JObj _ \<Rightarrow> quote @ k @ quote
      | JArr _ \<Rightarrow> ''list indices must be integers or slices, not str''
      | JStr _ \<Rightarrow> ''string indices must be integers, not '' @ quote @ ''str'' @ quote
      | _ \<Rightarrow> quote @ type_name v @ quote @ '' object is not subscriptable'')"

definition no_first_text :: "json \<Rightarrow> string" where
  "no_first_text v =
     (case v of
        JArr _ \<Rightarrow> ''list index out of range''
      | JStr _ \<Rightarrow> ''string index out of range''
      | JObj _ \<Rightarrow> ''0''
      | _ \<Rightarrow> quote @ type_name v @ quote @ '' object is not subscriptable'')"

definition missing_text :: "json \<Rightarrow> string" where
  "missing_text result =
     (case member ''choices'' result of
        None \<Rightarrow> no_member_text ''choices'' result
      | Some choices \<Rightarrow>
          (case first_item choices of
             None \<Rightarrow> no_first_text choices
           | Some choice \<Rightarrow>
               (case member ''message'' choice of
                  None \<Rightarrow> no_member_text ''message'' choice
                | Some msg \<Rightarrow> no_member_text ''content'' msg)))"

text \<open>The text of the error for a status the HTTP library rejects, 400 to 599.\<close>

definition status_text :: "http_request \<Rightarrow> http_response \<Rightarrow> string option" where
  "status_text rq r =
     (if 400 \<le> status_code r \<and> status_code r \<le> 499
      then Some (str_nat (status_code r) @ '' Client Error: '' @ reason r @ '' for url: '' @ url rq)
      else if 500 \<le> status_code r \<and> status_code r \<le> 599
      then Some (str_nat (status_code r) @ '' Server Error: '' @ reason r @ '' for url: '' @ url rq)
      else None)"

text \<open>
  The failure of a call, by what the service did with the request: a network error, a
  rejected status, a body that is not JSON, a reply without the completion; \<open>None\<close> when
  the call succeeds.
\<close>

definition failure_text :: "http_request \<Rightarrow> py_exc + http_response \<Rightarrow> string option" where
  "failure_text rq outcome =
     (case outcome of
        Inl ex \<Rightarrow> Some (str_exc ex)
      | Inr r \<Rightarrow>
          (case status_text rq r of
             Some t \<Rightarrow> Some t
           | None \<Rightarrow>
               (case json_result r of
                  Inl ex \<Rightarrow> Some (str_exc ex)
                | Inr j \<Rightarrow> (case content_at j of Some _ \<Rightarrow> None | None \<Rightarrow> Some (missing_text j)))))"

text \<open>The completion of a call that succeeds.\<close>

definition completion_text :: "py_exc + http_response \<Rightarrow> json option" where
  "completion_text outcome =
     (case outcome of
        Inl _ \<Rightarrow> None
      | Inr r \<Rightarrow> (case json_result r of Inl _ \<Rightarrow> None | Inr j \<Rightarrow> content_at j))"

definition expected_reply :: "http_request \<Rightarrow> py_exc + http_response \<Rightarrow> json" where
  "expected_reply rq outcome =
     (case failure_text rq outcome of
        Some t \<Rightarrow> JStr (''Error querying Mistral API: '' @ t)
      | None \<Rightarrow> the (completion_text outcome))"

text \<open>What \<open>extract_text_from_image\<close> returns, without the rendering.\<close>

definition extraction :: "env \<Rightarrow> string option" where
  "extraction e = fst (extract_text_from_image e (start initial_session []))"

text \<open>The page the run is on once the missing key has got its default.\<close>

definition current_page :: "session_state \<Rightarrow> page" where
  "current_page s = (case page s of None \<Rightarrow> ExtractText | Some p \<Rightarrow> p)"

text \<open>What \<open>main\<close> has done when it compares the radio button with the page.\<close>

definition header :: "ctx \<Rightarrow> ctx" where
  "header c =
     emit (Radio ''Go to'' (map page_name all_pages))
       (let c3 = emit (SidebarTitle ''Navigation'')
                   (emit (Write ''Upload a handwritten medical prescription to extract text or chat directly'')
                      (emit (Title ''Medical Prescription Analyzer'') c))
        in if page (state c3) = None then set_page ExtractText c3 else c3)"

text \<open>
  The run that records an extraction: on the extraction page, an image uploaded and
  opened, the extract button pressed, a non-empty text extracted, and the chat button of
  the branch taken pressed.
\<close>

definition extraction_transition :: "widgets \<Rightarrow> env \<Rightarrow> session_state \<Rightarrow> bool" where
  "extraction_transition w e s =
     (current_page s = ExtractText \<and> radio w = ExtractText \<and> uploaded_file w \<noteq> None
      \<and> image_open e = None \<and> btn_extract w \<and> truthy (extraction e)
      \<and> (if db_ping e = None then btn_chat w else btn_chat_no_db w))"

text \<open>Newest first.\<close>

definition newest_first :: "prescription list \<Rightarrow> bool" where
  "newest_first ps = sorted_wrt (\<lambda>a b. upload_date b \<le> upload_date a) ps"

text \<open>The chat button of the branch taken under an extracted text is pressed.\<close>

definition chat_pressed :: "widgets \<Rightarrow> collection option \<Rightarrow> bool" where
  "chat_pressed w col = (case col of Some _ \<Rightarrow> btn_chat w | None \<Rightarrow> btn_chat_no_db w)"

text \<open>The extraction page records the extracted text.\<close>

definition extracts :: "widgets \<Rightarrow> env \<Rightarrow> collection option \<Rightarrow> bool" where
  "extracts w e col =
     (uploaded_file w \<noteq> None \<and> image_open e = None \<and> btn_extract w \<and> truthy (extraction e)
      \<and> chat_pressed w col)"

text \<open>The context in which \<open>main\<close> enters the page that chats with prescription data.\<close>

definition chat_page_start :: "env \<Rightarrow> session_state \<Rightarrow> prescription list \<Rightarrow> ctx" where
  "chat_page_start e s d =
     (let g = get_db_connection e (header (start (init_current s) d))
      in emit (Subheader ''Chat with Prescription Data'')
           (if fst g = None
            then emit (Warning ''Database connection failed. Some features may be limited.'') (snd g)
            else snd g))"

definition connection :: "env \<Rightarrow> collection option" where
  "connection e = fst (get_db_connection e (start initial_session []))"

text \<open>The end of the page once the data is resolved or not.\<close>

definition finish_page :: "widgets \<Rightarrow> env \<Rightarrow> (ending + string option) \<times> ctx \<Rightarrow> ctx \<times> ending" where
  "finish_page w e r = (case fst r of Inl en \<Rightarrow> (snd r, en) | Inr pd \<Rightarrow> chat_panel w e pd (snd r))"

text \<open>The guidance of the page when it has no data.\<close>

definition guidance :: "env \<Rightarrow> ui" where
  "guidance e =
     (if db_ping e = None
      then Info ''No prescriptions found in database. Please extract text first or use Direct Chat.''
      else Warning ''No prescription data available. Please extract text first or use Direct Chat.'')"

text \<open>The select boxes a run has rendered.\<close>

definition selectors :: "ctx \<Rightarrow> ui list" where
  "selectors c = filter is_selectbox (rendered c)"

text \<open>The option list, written out.\<close>

definition record_labels :: "env \<Rightarrow> prescription list \<Rightarrow> string list" where
  "record_labels e ps =
     map (\<lambda>i. ''Prescription '' @ str_nat (i + 1) @ '' - '' @ str_date e (upload_date (ps ! i))) [0..<length ps]"

text \<open>The entries of \<^verbatim>\<open>All Prescriptions\<close>, written out.\<close>

definition numbered_texts :: "prescription list \<Rightarrow> string list" where
  "numbered_texts ps =
     map (\<lambda>i. ''Prescription '' @ str_nat (i + 1) @ '':'' @ [CHR 0x0A] @ extracted_text (ps ! i)) [0..<length ps]"

text \<open>The buttons a run has rendered.\<close>

definition buttons :: "ctx \<Rightarrow> ui list" where
  "buttons c = filter is_button (rendered c)"

subsection \<open>Sample inputs\<close>

definition idle :: widgets where
  "idle = \<lparr>radio = ExtractText, uploaded_file = None, btn_extract = False, btn_submit = False,
     btn_view = False, btn_chat = False, btn_chat_no_db = False, select_index = 0,
     chat_input = None, btn_clear = False\<rparr>"

definition offline :: env where
  "offline = \<lparr>mistral_api_key = None, db_ping = Some (Exc LibraryError ''connection refused''),
     db_find = None, db_insert = Inl (Exc LibraryError ''connection refused''), now = 0,
     image_open = None, ocr = Inr ''Amoxicillin 500mg twice daily'',
     post = (\<lambda>_. Inl (Exc LibraryError ''connection refused'')), str_date = (\<lambda>_. ''2024-05-01 10:00:00'')\<rparr>"

definition online :: env where
  "online = offline\<lparr>mistral_api_key := Some ''k'', db_ping := None, db_insert := Inr ''65f0c1''\<rparr>"

definition older :: prescription where
  "older = \<lparr>doc_id = ''a'', extracted_text = ''Ibuprofen 200mg'', upload_date = 10\<rparr>"

definition newer :: prescription where
  "newer = \<lparr>doc_id = ''b'', extracted_text = ''Amoxicillin 500mg'', upload_date = 20\<rparr>"

text \<open>A session: go to the direct chat, ask, then press the clear button.\<close>

definition ask_then_clear :: "(widgets \<times> env) list" where
  "ask_then_clear =
     [(idle\<lparr>radio := DirectChat\<rparr>, offline),
      (idle\<lparr>radio := DirectChat, chat_input := Some ''What is the dosage?''\<rparr>, offline),
      (idle\<lparr>radio := DirectChat, btn_clear := True\<rparr>, offline)]"

text \<open>A session: go to the direct chat, then ask twice.\<close>

definition two_turns :: "(widgets \<times> env) list" where
  "two_turns =
     [(idle\<lparr>radio := DirectChat\<rparr>, offline),
      (idle\<lparr>radio := DirectChat, chat_input := Some ''What is the dosage?''\<rparr>, offline),
      (idle\<lparr>radio := DirectChat, chat_input := Some ''And for children?''\<rparr>, online)]"

definition direct_session :: session_state where
  "direct_session = initial_session\<lparr>page := Some DirectChat\<rparr>"

definition ask :: widgets where
  "ask = idle\<lparr>radio := DirectChat, chat_input := Some ''What is the dosage?''\<rparr>"

definition unauthorized :: env where
  "unauthorized = online\<lparr>post := (\<lambda>_. Inr \<lparr>status_code = 401, reason = ''Unauthorized'', json_result = Inr (JObj [(''message'', JStr ''Unauthorized'')])\<rparr>)\<rparr>"

definition answering :: env where
  "answering = online\<lparr>post := (\<lambda>_. Inr \<lparr>status_code = 200, reason = ''OK'',
     json_result = Inr (JObj [(''choices'', JArr [JObj [(''message'', JObj [(''content'', JStr ''Twice daily.'')])]])])\<rparr>)\<rparr>"

definition malformed :: env where
  "malformed = online\<lparr>post := (\<lambda>_. Inr \<lparr>status_code = 200, reason = ''OK'', json_result = Inr (JObj [(''choices'', JArr [])])\<rparr>)\<rparr>"

definition extract_and_chat :: widgets where
  "extract_and_chat = idle\<lparr>uploaded_file := Some ''scan.png'', btn_extract := True, btn_chat := True\<rparr>"

definition extract_and_submit :: widgets where
  "extract_and_submit = idle\<lparr>uploaded_file := Some ''scan.png'', btn_extract := True, btn_submit := True\<rparr>"

definition insert_fails :: env where
  "insert_fails = online\<lparr>db_insert := Inl (Exc LibraryError ''not primary''), ocr := Inr ''Paracetamol 1g''\<rparr>"

definition holding :: session_state where
  "holding = \<lparr>page = Some ExtractText, chat_history = Some [], current_prescription = Some (Some ''Amoxicillin 500mg twice daily'')\<rparr>"

definition press_clear :: widgets where
  "press_clear = idle\<lparr>radio := DirectChat, btn_clear := True\<rparr>"

definition talked :: session_state where
  "talked = \<lparr>page = Some DirectChat,
     chat_history = Some [user_message ''What is the dosage?'', assistant_message (JStr ''Twice daily.'')],
     current_prescription = Some None\<rparr>"

definition on_chat_page :: session_state where
  "on_chat_page = initial_session\<lparr>page := Some ChatWithData\<rparr>"

definition open_chat_page :: widgets where
  "open_chat_page = idle\<lparr>radio := ChatWithData\<rparr>"

definition dated :: env where
  "dated = online\<lparr>str_date := (\<lambda>t. ''day '' @ str_nat (nat t))\<rparr>"

definition after_extraction :: session_state where
  "after_extraction = fst (run_session initial_session [] [(extract_and_chat, online)])"

definition choose_all :: widgets where
  "choose_all = open_chat_page\<lparr>select_index := 1, chat_input := Some ''What is the dosage?''\<rparr>"

definition empty_text :: session_state where
  "empty_text = on_chat_page\<lparr>current_prescription := Some (Some [])\<rparr>"

definition press_all :: widgets where
  "press_all = idle\<lparr>uploaded_file := Some ''scan.png'', btn_extract := True, btn_submit := True,
     btn_view := True, btn_chat := True, btn_chat_no_db := True\<rparr>"

definition blank_scan :: env where
  "blank_scan = online\<lparr>ocr := Inr [CHR '' '', CHR 0x0A, CHR 0x0C]\<rparr>"

definition empty_scan :: env where
  "empty_scan = online\<lparr>ocr := Inr []\<rparr>"

definition empty_scan_no_store :: env where
  "empty_scan_no_store = empty_scan\<lparr>db_ping := Some (Exc LibraryError ''connection refused'')\<rparr>"

section \<open>Frame lemmas\<close>

lemma truthy_the: "truthy v \<Longrightarrow> Some (the v) = v"
  by (cases v) simp_all

lemma emit_simps [simp]:
  "state (emit u c) = state c"
  "db (emit u c) = db c"
  "api_calls (emit u c) = api_calls c"
  "rendered (emit u c) = rendered c @ [u]"
  by (simp_all add: emit_def)

lemma start_simps [simp]:
  "state (start s d) = s"
  "db (start s d) = d"
  "rendered (start s d) = []"
  "api_calls (start s d) = []"
  by (simp_all add: start_def)

lemma history_session: "history c = session_history (state c)"
  by (simp add: history_def session_history_def)

lemma history_emit [simp]: "history (emit u c) = history c"
  by (simp add: history_def)

lemma history_start [simp]: "history (start s d) = session_history s"
  by (simp add: history_session)

lemma history_absent [simp]: "chat_history (state c) = None \<Longrightarrow> history c = []"
  by (simp add: history_def)

lemma history_other_update [simp]:
  "history (c\<lparr>api_calls := x\<rparr>) = history c"
  "history (c\<lparr>db := y\<rparr>) = history c"
  by (simp_all add: history_def)

lemma set_history_simps [simp]:
  "history (set_history h c) = h"
  "db (set_history h c) = db c"
  "api_calls (set_history h c) = api_calls c"
  "rendered (set_history h c) = rendered c"
  "page (state (set_history h c)) = page (state c)"
  "current_prescription (state (set_history h c)) = current_prescription (state c)"
  "chat_history (state (set_history h c)) = Some h"
  by (simp_all add: set_history_def history_def)

lemma append_message_simps [simp]:
  "history (append_message r v c) = history c @ [\<lparr>role = r, content = v\<rparr>]"
  "db (append_message r v c) = db c"
  "api_calls (append_message r v c) = api_calls c"
  "rendered (append_message r v c) = rendered c"
  "page (state (append_message r v c)) = page (state c)"
  "current_prescription (state (append_message r v c)) = current_prescription (state c)"
  by (simp_all add: append_message_def)

lemma set_page_simps [simp]:
  "history (set_page p c) = history c"
  "db (set_page p c) = db c"
  "api_calls (set_page p c) = api_calls c"
  "rendered (set_page p c) = rendered c"
  "page (state (set_page p c)) = Some p"
  "current_prescription (state (set_page p c)) = current_prescription (state c)"
  "chat_history (state (set_page p c)) = chat_history (state c)"
  by (simp_all add: set_page_def history_def)

lemma set_current_prescription_simps [simp]:
  "history (set_current_prescription t c) = history c"
  "db (set_current_prescription t c) = db c"
  "api_calls (set_current_prescription t c) = api_calls c"
  "rendered (set_current_prescription t c) = rendered c"
  "page (state (set_current_prescription t c)) = page (state c)"
  "current_prescription (state (set_current_prescription t c)) = Some (Some t)"
  "chat_history (state (set_current_prescription t c)) = chat_history (state c)"
  by (simp_all add: set_current_prescription_def history_def)

lemma replay_simps [simp]:
  "state (foldl (\<lambda>c m. emit (f m) c) c ms) = state c"
  "db (foldl (\<lambda>c m. emit (f m) c) c ms) = db c"
  "api_calls (foldl (\<lambda>c m. emit (f m) c) c ms) = api_calls c"
  "rendered (foldl (\<lambda>c m. emit (f m) c) c ms) = rendered c @ map f ms"
  by (induction ms arbitrary: c) simp_all

lemma history_replay [simp]: "history (foldl (\<lambda>c m. emit (f m) c) c ms) = history c"
  by (simp add: history_def)

lemma listing_simps [simp]:
  "state (foldl (\<lambda>c x. emit (f x) (emit (g x) c)) c xs) = state c"
  "db (foldl (\<lambda>c x. emit (f x) (emit (g x) c)) c xs) = db c"
  "api_calls (foldl (\<lambda>c x. emit (f x) (emit (g x) c)) c xs) = api_calls c"
  "rendered (foldl (\<lambda>c x. emit (f x) (emit (g x) c)) c xs) = rendered c @ concat (map (\<lambda>x. [g x, f x]) xs)"
  by (induction xs arbitrary: c) simp_all

lemma get_db_connection_frame [simp]:
  "state (snd (get_db_connection e c)) = state c"
  "db (snd (get_db_connection e c)) = db c"
  "api_calls (snd (get_db_connection e c)) = api_calls c"
  by (simp_all add: get_db_connection_def split: option.splits)

lemma extract_text_from_image_frame [simp]:
  "state (snd (extract_text_from_image e c)) = state c"
  "db (snd (extract_text_from_image e c)) = db c"
  "api_calls (snd (extract_text_from_image e c)) = api_calls c"
  by (simp_all add: extract_text_from_image_def split: sum.splits)

lemma extract_text_from_image_value: "fst (extract_text_from_image e c) = extraction e"
  by (simp add: extract_text_from_image_def extraction_def split: sum.splits)

lemma save_to_database_frame [simp]:
  "state (snd (save_to_database e t col c)) = state c"
  "api_calls (snd (save_to_database e t col c)) = api_calls c"
  by (simp_all add: save_to_database_def Let_def split: sum.splits)

lemma fetch_stored_prescriptions_frame [simp]:
  "state (snd (fetch_stored_prescriptions e col c)) = state c"
  "db (snd (fetch_stored_prescriptions e col c)) = db c"
  "api_calls (snd (fetch_stored_prescriptions e col c)) = api_calls c"
  by (simp_all add: fetch_stored_prescriptions_def split: option.splits)

lemma show_stored_frame [simp]:
  "state (show_stored e ps c) = state c"
  "db (show_stored e ps c) = db c"
  "api_calls (show_stored e ps c) = api_calls c"
  by (simp_all add: show_stored_def)

text \<open>Which of these render a chat input: none.\<close>

lemma shown_emit [simp]: "chat_panel_shown (emit u c) = (chat_panel_shown c \<or> is_chat_input u)"
  by (simp add: chat_panel_shown_def)

lemma shown_start [simp]: "\<not> chat_panel_shown (start s d)"
  by (simp add: chat_panel_shown_def)

lemma shown_updates [simp]:
  "chat_panel_shown (set_history h c) = chat_panel_shown c"
  "chat_panel_shown (set_page p c) = chat_panel_shown c"
  "chat_panel_shown (set_current_prescription t c) = chat_panel_shown c"
  by (simp_all add: chat_panel_shown_def)

lemma shown_collaborators [simp]:
  "chat_panel_shown (snd (get_db_connection e c)) = chat_panel_shown c"
  "chat_panel_shown (snd (extract_text_from_image e c)) = chat_panel_shown c"
  "chat_panel_shown (snd (save_to_database e t col c)) = chat_panel_shown c"
  "chat_panel_shown (snd (fetch_stored_prescriptions e col c)) = chat_panel_shown c"
  by (simp_all add: chat_panel_shown_def get_db_connection_def extract_text_from_image_def
      save_to_database_def fetch_stored_prescriptions_def Let_def split: option.splits sum.splits)

lemma shown_show_stored [simp]: "chat_panel_shown (show_stored e ps c) = chat_panel_shown c"
  by (auto simp: chat_panel_shown_def show_stored_def list_ex_iff)

lemma history_collaborators [simp]:
  "history (snd (get_db_connection e c)) = history c"
  "history (snd (extract_text_from_image e c)) = history c"
  "history (snd (save_to_database e t col c)) = history c"
  "history (snd (fetch_stored_prescriptions e col c)) = history c"
  "history (show_stored e ps c) = history c"
  by (simp_all add: history_session)

text \<open>Which of these render the clear button: none.\<close>

lemma clear_button_eq [simp]:
  "Button l k = clear_button \<longleftrightarrow> l = ''Clear Chat History'' \<and> k = ''clear_chat_history_button''"
  "Title a \<noteq> clear_button" "Write a \<noteq> clear_button" "SidebarTitle a \<noteq> clear_button"
  "Radio a os \<noteq> clear_button" "Success a \<noteq> clear_button" "Warning a \<noteq> clear_button"
  "Error a \<noteq> clear_button" "Info a \<noteq> clear_button" "Subheader a \<noteq> clear_button"
  "FileUploader a \<noteq> clear_button" "ImageEl a \<noteq> clear_button" "Columns n \<noteq> clear_button"
  "Spinner a \<noteq> clear_button" "TextArea a b \<noteq> clear_button" "Selectbox a os \<noteq> clear_button"
  "Expander a \<noteq> clear_button" "ChatMessage r v \<noteq> clear_button" "ChatInput a \<noteq> clear_button"
  by (auto simp: clear_button_def)

lemma offered_emit [simp]: "clear_offered (emit u c) = (clear_offered c \<or> u = clear_button)"
  by (auto simp: clear_offered_def)

lemma offered_start [simp]: "\<not> clear_offered (start s d)"
  by (simp add: clear_offered_def)

lemma offered_updates [simp]:
  "clear_offered (set_history h c) = clear_offered c"
  "clear_offered (append_message r v c) = clear_offered c"
  "clear_offered (set_page p c) = clear_offered c"
  "clear_offered (set_current_prescription t c) = clear_offered c"
  "clear_offered (c\<lparr>api_calls := x\<rparr>) = clear_offered c"
  by (simp_all add: clear_offered_def)

lemma offered_collaborators [simp]:
  "clear_offered (snd (get_db_connection e c)) = clear_offered c"
  "clear_offered (snd (extract_text_from_image e c)) = clear_offered c"
  "clear_offered (snd (save_to_database e t col c)) = clear_offered c"
  "clear_offered (snd (fetch_stored_prescriptions e col c)) = clear_offered c"
  by (simp_all add: clear_offered_def clear_button_def get_db_connection_def extract_text_from_image_def
      save_to_database_def fetch_stored_prescriptions_def Let_def split: option.splits sum.splits)

lemma offered_show_stored [simp]: "clear_offered (show_stored e ps c) = clear_offered c"
  by (auto simp: clear_offered_def clear_button_def show_stored_def)

lemma offered_replay [simp]:
  "clear_offered (foldl (\<lambda>c m. emit (ChatMessage (f m) (g m)) c) c ms) = clear_offered c"
  by (induction ms arbitrary: c) (simp_all add: clear_button_def)

section \<open>The chat panel\<close>

lemma display_chat_interface_offered:
  "clear_offered (fst (display_chat_interface w e pd c)) =
     (clear_offered c \<or> history c @ turn_messages w e pd \<noteq> [])"
  by (simp add: display_chat_interface_def turn_messages_def Let_def split_beta clear_button_def)

lemma display_chat_interface_history:
  "history (fst (display_chat_interface w e pd c)) = after_panel w e pd (history c)"
  by (simp add: display_chat_interface_def after_panel_def turn_messages_def user_message_def
      assistant_message_def Let_def split_beta)

lemma display_chat_interface_calls:
  "api_calls (fst (display_chat_interface w e pd c)) = api_calls c @ turn_calls w e pd"
  by (simp add: display_chat_interface_def turn_calls_def Let_def split_beta)

lemma display_chat_interface_ending:
  "snd (display_chat_interface w e pd c) = panel_ending w e pd (history c)"
  by (simp add: display_chat_interface_def panel_ending_def turn_messages_def Let_def split_beta)

lemma display_chat_interface_frame [simp]:
  "db (fst (display_chat_interface w e pd c)) = db c"
  "page (state (fst (display_chat_interface w e pd c))) = page (state c)"
  "current_prescription (state (fst (display_chat_interface w e pd c))) = current_prescription (state c)"
  by (simp_all add: display_chat_interface_def Let_def split_beta)

lemma display_chat_interface_shown [simp]:
  "chat_panel_shown (fst (display_chat_interface w e pd c))"
  by (simp add: display_chat_interface_def Let_def split_beta chat_panel_shown_def)

lemma chat_effect_panel: "chat_effect w e c (display_chat_interface w e pd c)"
  unfolding chat_effect_def
  using display_chat_interface_history [of w e pd c] display_chat_interface_calls [of w e pd c]
    display_chat_interface_ending [of w e pd c] display_chat_interface_offered [of w e pd c]
  by auto

lemma chat_effect_from:
  "history c1 = history c \<Longrightarrow> api_calls c1 = api_calls c \<Longrightarrow> clear_offered c1 = clear_offered c
     \<Longrightarrow> chat_effect w e c1 r \<Longrightarrow> chat_effect w e c r"
  by (auto simp: chat_effect_def)

lemma chat_effect_quiet:
  "\<not> chat_panel_shown c' \<Longrightarrow> history c' = history c \<Longrightarrow> api_calls c' = api_calls c
     \<Longrightarrow> clear_offered c' = clear_offered c \<Longrightarrow> chat_effect w e c (c', en)"
  by (simp add: chat_effect_def)

lemma chat_effect_chat_panel: "chat_effect w e c (chat_panel w e pd c)"
  unfolding chat_panel_def
  by (rule chat_effect_from [OF _ _ _ chat_effect_panel]) simp_all

section \<open>The extraction page\<close>

lemma extracted_actions_chat [simp]:
  "history (fst (extracted_actions w e col t c)) = history c"
  "api_calls (fst (extracted_actions w e col t c)) = api_calls c"
  "chat_panel_shown (fst (extracted_actions w e col t c)) = chat_panel_shown c"
  "clear_offered (fst (extracted_actions w e col t c)) = clear_offered c"
  by (simp_all add: extracted_actions_def chat_with_this_def Let_def split_beta clear_button_def
      split: option.splits)

lemma page_extract_text_chat [simp]:
  "history (fst (page_extract_text w e col c)) = history c"
  "api_calls (fst (page_extract_text w e col c)) = api_calls c"
  "chat_panel_shown (fst (page_extract_text w e col c)) = chat_panel_shown c"
  "clear_offered (fst (page_extract_text w e col c)) = clear_offered c"
  by (simp_all add: page_extract_text_def Let_def split_beta clear_button_def split: option.splits)

section \<open>The page that chats with prescription data\<close>

lemma use_current_frame [simp]:
  "state (snd (use_current c)) = state c"
  "db (snd (use_current c)) = db c"
  "api_calls (snd (use_current c)) = api_calls c"
  "history (snd (use_current c)) = history c"
  "chat_panel_shown (snd (use_current c)) = chat_panel_shown c"
  by (simp_all add: use_current_def Let_def split: sum.splits)

lemma resolve_prescription_data_frame [simp]:
  "state (snd (resolve_prescription_data w e col c)) = state c"
  "db (snd (resolve_prescription_data w e col c)) = db c"
  "api_calls (snd (resolve_prescription_data w e col c)) = api_calls c"
  "history (snd (resolve_prescription_data w e col c)) = history c"
  "chat_panel_shown (snd (resolve_prescription_data w e col c)) = chat_panel_shown c"
  by (simp_all add: resolve_prescription_data_def Let_def split_beta split: option.splits sum.splits)

lemma offered_resolve [simp]:
  "clear_offered (snd (use_current c)) = clear_offered c"
  "clear_offered (snd (resolve_prescription_data w e col c)) = clear_offered c"
  by (simp_all add: use_current_def resolve_prescription_data_def Let_def split_beta clear_button_def
      split: option.splits sum.splits)

lemma chat_effect_page_chat_with_data:
  assumes "\<not> chat_panel_shown c"
  shows "chat_effect w e c (page_chat_with_data w e col c)"
proof -
  let ?c1 = "emit (Subheader ''Chat with Prescription Data'') c"
  let ?r = "resolve_prescription_data w e col ?c1"
  have c2: "\<not> chat_panel_shown (snd ?r)" "history (snd ?r) = history c" "api_calls (snd ?r) = api_calls c"
    "clear_offered (snd ?r) = clear_offered c"
    using assms by simp_all
  show ?thesis
  proof (cases "fst ?r")
    case (Inl en)
    then have "page_chat_with_data w e col c = (snd ?r, en)"
      by (simp add: page_chat_with_data_def Let_def split_beta)
    with c2 show ?thesis
      by (simp add: chat_effect_quiet)
  next
    case (Inr pd)
    then have "page_chat_with_data w e col c = chat_panel w e pd (snd ?r)"
      by (simp add: page_chat_with_data_def Let_def split_beta)
    then show ?thesis
      using chat_effect_from [OF c2(2) c2(3) c2(4) chat_effect_chat_panel] by simp
  qed
qed

lemma chat_effect_page_direct_chat: "chat_effect w e c (page_direct_chat w e c)"
  unfolding page_direct_chat_def Let_def
  by (rule chat_effect_from [OF _ _ _ chat_effect_panel]) simp_all

section \<open>\<open>main\<close> and the script\<close>

lemma main_unfold:
  "main w e c =
     (if Some (radio w) \<noteq> page (state (header c)) then (set_page (radio w) (header c), Rerun)
      else (case radio w of
              ExtractText \<Rightarrow>
                page_extract_text w e (fst (get_db_connection e (header c))) (snd (get_db_connection e (header c)))
            | ChatWithData \<Rightarrow>
                page_chat_with_data w e (fst (get_db_connection e (header c)))
                  (if fst (get_db_connection e (header c)) = None
                   then emit (Warning ''Database connection failed. Some features may be limited.'')
                          (snd (get_db_connection e (header c)))
                   else snd (get_db_connection e (header c)))
            | DirectChat \<Rightarrow> page_direct_chat w e (header c)))"
  by (cases "radio w") (simp_all add: main_def header_def Let_def split_beta)

lemma header_frame [simp]:
  "db (header c) = db c"
  "api_calls (header c) = api_calls c"
  "history (header c) = history c"
  "chat_panel_shown (header c) = chat_panel_shown c"
  "current_prescription (state (header c)) = current_prescription (state c)"
  "chat_history (state (header c)) = chat_history (state c)"
  "page (state (header c)) = Some (current_page (state c))"
  by (auto simp: header_def Let_def current_page_def split: option.splits)

lemma offered_header [simp]: "clear_offered (header c) = clear_offered c"
  by (simp add: header_def Let_def clear_button_def)

lemma chat_effect_main:
  assumes "\<not> chat_panel_shown c"
  shows "chat_effect w e c (main w e c)"
proof (cases "Some (radio w) \<noteq> page (state (header c))")
  case True
  then have "main w e c = (set_page (radio w) (header c), Rerun)"
    by (simp add: main_unfold)
  with assms show ?thesis
    by (simp add: chat_effect_quiet)
next
  case False
  let ?g = "get_db_connection e (header c)"
  show ?thesis
  proof (cases "radio w")
    case ExtractText
    with False have m: "main w e c = page_extract_text w e (fst ?g) (snd ?g)"
      by (simp add: main_unfold)
    have "chat_effect w e c (fst (main w e c), snd (main w e c))"
      using assms by (intro chat_effect_quiet) (simp_all add: m)
    then show ?thesis by simp
  next
    case ChatWithData
    let ?c7 = "if fst ?g = None
               then emit (Warning ''Database connection failed. Some features may be limited.'') (snd ?g)
               else snd ?g"
    have c7: "\<not> chat_panel_shown ?c7" "history ?c7 = history c" "api_calls ?c7 = api_calls c"
      "clear_offered ?c7 = clear_offered c"
      using assms by simp_all
    from False ChatWithData have "main w e c = page_chat_with_data w e (fst ?g) ?c7"
      by (simp add: main_unfold)
    then show ?thesis
      using chat_effect_from [OF c7(2) c7(3) c7(4) chat_effect_page_chat_with_data [OF c7(1)]] by simp
  next
    case DirectChat
    with False have "main w e c = page_direct_chat w e (header c)"
      by (simp add: main_unfold)
    then show ?thesis
      using chat_effect_from [OF _ _ _ chat_effect_page_direct_chat, of "header c" c w e] by simp
  qed
qed

lemma session_history_init_current [simp]: "session_history (init_current s) = session_history s"
  by (simp add: init_current_def session_history_def)

lemma chat_effect_script: "chat_effect w e (start s d) (script w e s d)"
  unfolding script_def
  by (rule chat_effect_from [OF _ _ _ chat_effect_main]) simp_all

section \<open>Sessions\<close>

lemma alternating_append: "alternating xs \<Longrightarrow> alternating ys \<Longrightarrow> alternating (xs @ ys)"
  by (induction xs rule: alternating.induct) simp_all

lemma alternating_turn_messages: "alternating (turn_messages w e pd)"
  by (simp add: turn_messages_def user_message_def assistant_message_def)

lemma length_turn_messages: "length (turn_messages w e pd) = (if truthy (chat_input w) then 2 else 0)"
  by (simp add: turn_messages_def)

lemma script_step:
  assumes "\<not> btn_clear w"
  shows "\<exists>ms. session_history (state (fst (script w e s d))) = session_history s @ ms
           \<and> alternating ms \<and> length ms = (if completed_turn w e s d then 2 else 0)"
proof (cases "chat_panel_shown (fst (script w e s d))")
  case True
  with chat_effect_script [of w e s d] obtain pd
    where "history (fst (script w e s d)) = after_panel w e pd (session_history s)"
    by (auto simp: chat_effect_def)
  with assms have "session_history (state (fst (script w e s d))) = session_history s @ turn_messages w e pd"
    by (simp add: after_panel_def history_session)
  with True show ?thesis
    by (auto simp: completed_turn_def alternating_turn_messages length_turn_messages)
next
  case False
  with chat_effect_script [of w e s d]
  have "session_history (state (fst (script w e s d))) = session_history s"
    by (simp add: chat_effect_def history_session)
  with False show ?thesis
    by (simp add: completed_turn_def)
qed

text \<open>A run of the script, with or without the clear button.\<close>

lemma script_step_clear:
  "\<exists>ms. session_history (state (fst (script w e s d))) =
          (if clear_used w e s d then [] else session_history s @ ms)
        \<and> alternating ms \<and> length ms = (if completed_turn w e s d then 2 else 0)"
proof (cases "chat_panel_shown (fst (script w e s d))")
  case True
  with chat_effect_script [of w e s d] obtain pd
    where h: "history (fst (script w e s d)) = after_panel w e pd (session_history s)"
      and o: "clear_offered (fst (script w e s d)) = (session_history s @ turn_messages w e pd \<noteq> [])"
    by (auto simp: chat_effect_def)
  from h o have "session_history (state (fst (script w e s d))) =
      (if clear_used w e s d then [] else session_history s @ turn_messages w e pd)"
    by (auto simp: after_panel_def history_session clear_used_def)
  with True show ?thesis
    by (intro exI [of _ "turn_messages w e pd"])
      (simp add: completed_turn_def alternating_turn_messages length_turn_messages)
next
  case False
  with chat_effect_script [of w e s d]
  have "session_history (state (fst (script w e s d))) = session_history s"
    and "\<not> clear_offered (fst (script w e s d))"
    by (simp_all add: chat_effect_def history_session)
  with False show ?thesis
    by (simp add: completed_turn_def clear_used_def)
qed

lemma session_since_clear:
  assumes "alternating (session_history s)" and "length (session_history s) = 2 * n"
  shows "length (session_history (fst (run_session s d steps))) = 2 * turns_since_clear s d steps n
         \<and> alternating (session_history (fst (run_session s d steps)))"
  using assms
proof (induction steps arbitrary: s d n)
  case Nil
  then show ?case by simp
next
  case (Cons x xs)
  let ?c = "fst (script (fst x) (snd x) s d)"
  let ?n = "if clear_used (fst x) (snd x) s d then 0
            else n + (if completed_turn (fst x) (snd x) s d then 1 else 0)"
  from script_step_clear [of "fst x" "snd x" s d] obtain ms
    where ms: "session_history (state ?c) =
                 (if clear_used (fst x) (snd x) s d then [] else session_history s @ ms)"
      "alternating ms" "length ms = (if completed_turn (fst x) (snd x) s d then 2 else 0)"
    by blast
  have a: "alternating (session_history (state ?c))"
    using ms(1,2) Cons.prems(1) by (simp add: alternating_append)
  have l: "length (session_history (state ?c)) = 2 * ?n"
    using ms(1,3) Cons.prems(2) by simp
  from Cons.IH [OF a l, of "db ?c"] show ?case
    by (simp add: Let_def)
qed

lemma turns_without_clear:
  "\<forall>x \<in> set steps. \<not> btn_clear (fst x) \<Longrightarrow>
     turns_since_clear s d steps n = n + count_turns s d steps"
  by (induction steps arbitrary: s d n) (simp_all add: Let_def clear_used_def)

lemma session_turns:
  assumes "\<forall>x \<in> set steps. \<not> btn_clear (fst x)"
  shows "\<exists>ms. session_history (fst (run_session s d steps)) = session_history s @ ms
           \<and> alternating ms \<and> length ms = 2 * count_turns s d steps"
  using assms
proof (induction steps arbitrary: s d)
  case Nil
  then show ?case by simp
next
  case (Cons x xs)
  let ?c = "fst (script (fst x) (snd x) s d)"
  from Cons.prems have nc: "\<not> btn_clear (fst x)" and rest: "\<forall>y \<in> set xs. \<not> btn_clear (fst y)"
    by simp_all
  from script_step [OF nc, of "snd x" s d] obtain ms1
    where ms1: "session_history (state ?c) = session_history s @ ms1" "alternating ms1"
      "length ms1 = (if completed_turn (fst x) (snd x) s d then 2 else 0)"
    by blast
  from Cons.IH [OF rest, of "state ?c" "db ?c"] obtain ms2
    where ms2: "session_history (fst (run_session (state ?c) (db ?c) xs)) = session_history (state ?c) @ ms2"
      "alternating ms2" "length ms2 = 2 * count_turns (state ?c) (db ?c) xs"
    by blast
  have "session_history (fst (run_session s d (x # xs))) = session_history s @ (ms1 @ ms2)"
    using ms1(1) ms2(1) by (simp add: Let_def)
  moreover have "alternating (ms1 @ ms2)"
    using ms1(2) ms2(2) by (rule alternating_append)
  moreover have "length (ms1 @ ms2) = 2 * count_turns s d (x # xs)"
    using ms1(3) ms2(3) by (simp add: Let_def)
  ultimately show ?case by blast
qed

section \<open>The completion call\<close>

lemma query_without_key:
  "\<not> truthy (mistral_api_key e) \<Longrightarrow> query_mistral_api e q pd = (JStr key_error_text, [])"
  by (simp add: query_mistral_api_def query_mistral_api_try_def)

lemma query_with_key_calls:
  "truthy (mistral_api_key e) \<Longrightarrow>
     snd (query_mistral_api e q pd) = [build_request (the (mistral_api_key e)) q pd]"
  by (simp add: query_mistral_api_def query_mistral_api_try_def Let_def split: sum.splits prod.splits)

lemma build_request_expected:
  "build_request k q pd = expected_request k (system_message_for pd) q"
  by (simp add: build_request_def expected_request_def api_url_def)

lemma getitem_str_member:
  "getitem_str v k = (case member k v of Some x \<Rightarrow> Inr x | None \<Rightarrow> Inl (Exc (if (\<exists>kvs. v = JObj kvs) then KeyError else TypeError) (no_member_text k v)))"
  by (cases v) (simp_all add: member_def no_member_text_def not_subscriptable_def split: option.splits)

lemma getitem_0_first:
  "\<exists>cl. getitem_0 v = (case first_item v of Some x \<Rightarrow> Inr x | None \<Rightarrow> Inl (Exc cl (no_first_text v)))"
  by (cases v) (auto simp: first_item_def no_first_text_def not_subscriptable_def split: list.splits)

lemma completion_of_content:
  "content_at j = Some v \<Longrightarrow> completion_of j = Inr v"
  "content_at j = None \<Longrightarrow> \<exists>cl. completion_of j = Inl (Exc cl (missing_text j))"
proof -
  show "content_at j = Some v \<Longrightarrow> completion_of j = Inr v"
    using getitem_0_first
    by (fastforce simp: content_at_def completion_of_def bind_exc_def getitem_str_member
        split: option.splits)
  show "content_at j = None \<Longrightarrow> \<exists>cl. completion_of j = Inl (Exc cl (missing_text j))"
  proof -
    assume n: "content_at j = None"
    show ?thesis
    proof (cases "member ''choices'' j")
      case None
      then show ?thesis
        by (simp add: completion_of_def bind_exc_def getitem_str_member missing_text_def)
    next
      case (Some chs)
      note chs = this
      from getitem_0_first [of chs] obtain cl0 where
        g0: "getitem_0 chs = (case first_item chs of Some x \<Rightarrow> Inr x | None \<Rightarrow> Inl (Exc cl0 (no_first_text chs)))"
        by blast
      show ?thesis
      proof (cases "first_item chs")
        case None
        with chs g0 show ?thesis
          by (simp add: completion_of_def bind_exc_def getitem_str_member missing_text_def)
      next
        case (Some ch)
        note ch = this
        show ?thesis
        proof (cases "member ''message'' ch")
          case None
          with chs ch g0 show ?thesis
            by (simp add: completion_of_def bind_exc_def getitem_str_member missing_text_def)
        next
          case (Some m)
          with n chs ch have "member ''content'' m = None"
            by (simp add: content_at_def)
          with chs ch Some g0 show ?thesis
            by (simp add: completion_of_def bind_exc_def getitem_str_member missing_text_def)
        qed
      qed
    qed
  qed
qed

lemma raise_for_status_text:
  "raise_for_status rq r = (case status_text rq r of Some t \<Rightarrow> Inl (Exc HTTPError t) | None \<Rightarrow> Inr ())"
  by (auto simp: raise_for_status_def status_text_def)

lemma query_expected:
  assumes "mistral_api_key e = Some k" and "k \<noteq> []"
  shows "query_mistral_api e q pd =
           (expected_reply (build_request k q pd) (post e (build_request k q pd)), [build_request k q pd])"
proof -
  let ?rq = "build_request k q pd"
  have t: "query_mistral_api_try e q pd =
      (bind_exc (post e ?rq) (\<lambda>response.
         bind_exc (raise_for_status ?rq response) (\<lambda>_.
         bind_exc (json_result response) completion_of)), [?rq])"
    using assms by (simp add: query_mistral_api_try_def Let_def)
  show ?thesis
  proof (cases "post e ?rq")
    case (Inl ex)
    then show ?thesis
      by (simp add: query_mistral_api_def t bind_exc_def expected_reply_def failure_text_def)
  next
    case (Inr r)
    note r = this
    show ?thesis
    proof (cases "status_text ?rq r")
      case (Some tx)
      with r show ?thesis
        by (simp add: query_mistral_api_def t bind_exc_def expected_reply_def failure_text_def
            raise_for_status_text)
    next
      case None
      note ok = this
      show ?thesis
      proof (cases "json_result r")
        case (Inl ex)
        with r ok show ?thesis
          by (simp add: query_mistral_api_def t bind_exc_def expected_reply_def failure_text_def
              raise_for_status_text)
      next
        case (Inr j)
        note j = this
        show ?thesis
        proof (cases "content_at j")
          case None
          from completion_of_content(2) [OF None] obtain cl where
            "completion_of j = Inl (Exc cl (missing_text j))" ..
          with r ok j None show ?thesis
            by (simp add: query_mistral_api_def t bind_exc_def expected_reply_def failure_text_def
                raise_for_status_text)
        next
          case (Some v)
          from completion_of_content(1) [OF Some] have "completion_of j = Inr v" .
          with r ok j Some show ?thesis
            by (simp add: query_mistral_api_def t bind_exc_def expected_reply_def failure_text_def
                raise_for_status_text completion_text_def)
        qed
      qed
    qed
  qed
qed

lemma no_failure_completion:
  "failure_text rq outcome = None \<Longrightarrow> \<exists>v. completion_text outcome = Some v"
  by (auto simp: failure_text_def completion_text_def split: sum.splits option.splits)

text \<open>A completed turn without the clear button, seen from the script.\<close>

lemma completed_turn_effect:
  assumes "completed_turn w e s d" and "\<not> btn_clear w"
  shows "\<exists>pd. session_history (state (fst (script w e s d))) =
               session_history s @
                 [user_message (the (chat_input w)),
                  assistant_message (fst (query_mistral_api e (the (chat_input w)) pd))]
            \<and> api_calls (fst (script w e s d)) = snd (query_mistral_api e (the (chat_input w)) pd)
            \<and> snd (script w e s d) = Finished"
proof -
  from assms(1) have q: "truthy (chat_input w)" and shown: "chat_panel_shown (fst (script w e s d))"
    by (simp_all add: completed_turn_def)
  from shown chat_effect_script [of w e s d] obtain pd where
    "history (fst (script w e s d)) = after_panel w e pd (session_history s)"
    "api_calls (fst (script w e s d)) = turn_calls w e pd"
    "snd (script w e s d) = panel_ending w e pd (session_history s)"
    by (auto simp: chat_effect_def)
  with q assms(2) show ?thesis
    by (auto simp: after_panel_def turn_calls_def panel_ending_def turn_messages_def history_session
        intro!: exI [of _ pd])
qed

text \<open>The kinds of failure, each on a sample reply of the service.\<close>

lemma completion_failure_examples:
  "fst (query_mistral_api online ''q'' None) = JStr ''Error querying Mistral API: connection refused''"
  "fst (query_mistral_api unauthorized ''q'' None) =
     JStr ''Error querying Mistral API: 401 Client Error: Unauthorized for url: https://api.mistral.ai/v1/chat/completions''"
  "fst (query_mistral_api malformed ''q'' None) = JStr ''Error querying Mistral API: list index out of range''"
  by code_simp+

section \<open>The active prescription text\<close>

lemma get_db_connection_value: "fst (get_db_connection e c) = None \<longleftrightarrow> db_ping e \<noteq> None"
  by (simp add: get_db_connection_def split: option.splits)

lemma extracted_actions_current:
  "current_prescription (state (fst (extracted_actions w e col t c))) =
     (if chat_pressed w col then Some (Some t) else current_prescription (state c))"
  "chat_pressed w col \<Longrightarrow> page (state (fst (extracted_actions w e col t c))) = Some ChatWithData"
  "chat_pressed w col \<Longrightarrow> snd (extracted_actions w e col t c) = Rerun"
  by (simp_all add: extracted_actions_def chat_with_this_def chat_pressed_def Let_def split_beta
      split: option.splits)

lemma page_extract_text_current:
  "current_prescription (state (fst (page_extract_text w e col c))) =
     (if extracts w e col then Some (extraction e) else current_prescription (state c))"
  "extracts w e col \<Longrightarrow> page (state (fst (page_extract_text w e col c))) = Some ChatWithData"
  "extracts w e col \<Longrightarrow> snd (page_extract_text w e col c) = Rerun"
  by (auto simp: page_extract_text_def extracts_def extracted_actions_current truthy_the
      extract_text_from_image_value Let_def split_beta split: option.splits)

lemma chat_panel_frame [simp]:
  "current_prescription (state (fst (chat_panel w e pd c))) = current_prescription (state c)"
  "page (state (fst (chat_panel w e pd c))) = page (state c)"
  "db (fst (chat_panel w e pd c)) = db c"
  by (simp_all add: chat_panel_def)

lemma page_chat_with_data_frame [simp]:
  "current_prescription (state (fst (page_chat_with_data w e col c))) = current_prescription (state c)"
  "page (state (fst (page_chat_with_data w e col c))) = page (state c)"
  "db (fst (page_chat_with_data w e col c)) = db c"
  by (simp_all add: page_chat_with_data_def Let_def split_beta split: sum.splits)

lemma page_direct_chat_frame [simp]:
  "current_prescription (state (fst (page_direct_chat w e c))) = current_prescription (state c)"
  "page (state (fst (page_direct_chat w e c))) = page (state c)"
  "db (fst (page_direct_chat w e c)) = db c"
  by (simp_all add: page_direct_chat_def Let_def)

lemma extraction_transition_extracts:
  "extraction_transition w e s \<longleftrightarrow>
     current_page s = ExtractText \<and> radio w = ExtractText \<and> extracts w e (fst (get_db_connection e c))"
  by (auto simp: extraction_transition_def extracts_def chat_pressed_def get_db_connection_def
      split: option.splits)

lemma main_current:
  "current_prescription (state (fst (main w e c))) =
     (if extraction_transition w e (state c) then Some (extraction e) else current_prescription (state c))"
proof (cases "Some (radio w) \<noteq> page (state (header c))")
  case True
  then show ?thesis
    by (auto simp: main_unfold extraction_transition_def)
next
  case False
  then have p: "current_page (state c) = radio w"
    by simp
  show ?thesis
  proof (cases "radio w")
    case ExtractText
    with False p show ?thesis
      by (simp add: main_unfold page_extract_text_current
          extraction_transition_extracts [of w e "state c" "header c"])
  next
    case ChatWithData
    with False p show ?thesis
      by (simp add: main_unfold extraction_transition_def)
  next
    case DirectChat
    with False p show ?thesis
      by (simp add: main_unfold extraction_transition_def)
  qed
qed

lemma main_transition:
  assumes "extraction_transition w e (state c)"
  shows "page (state (fst (main w e c))) = Some ChatWithData" and "snd (main w e c) = Rerun"
proof -
  from assms have p: "current_page (state c) = ExtractText" "radio w = ExtractText"
    and x: "extracts w e (fst (get_db_connection e (header c)))"
    by (simp_all add: extraction_transition_extracts [of w e "state c" "header c"])
  from p have m: "main w e c =
      page_extract_text w e (fst (get_db_connection e (header c))) (snd (get_db_connection e (header c)))"
    by (simp add: main_unfold)
  show "page (state (fst (main w e c))) = Some ChatWithData"
    by (simp add: m page_extract_text_current(2) [OF x])
  show "snd (main w e c) = Rerun"
    by (simp add: m page_extract_text_current(3) [OF x])
qed

lemma current_page_init_current [simp]: "current_page (init_current s) = current_page s"
  by (simp add: current_page_def init_current_def)

lemma active_text_init_current [simp]: "active_text (init_current s) = active_text s"
  by (simp add: active_text_def init_current_def)

lemma extraction_transition_init_current [simp]:
  "extraction_transition w e (init_current s) = extraction_transition w e s"
  by (simp add: extraction_transition_def)

lemma active_text_eq: "current_prescription s = current_prescription t \<Longrightarrow> active_text s = active_text t"
  by (simp add: active_text_def)

lemma script_current:
  "current_prescription (state (fst (script w e s d))) =
     (if extraction_transition w e s then Some (extraction e) else current_prescription (init_current s))"
  by (simp add: script_def main_current)

section \<open>Clearing the chat\<close>

lemma panel_clears:
  "btn_clear w \<Longrightarrow> \<not> truthy (chat_input w) \<Longrightarrow>
     chat_history (state (fst (display_chat_interface w e pd c))) = Some []"
  by (auto simp: display_chat_interface_def Let_def history_def split: option.splits)

lemma panel_on_empty:
  "chat_history (state c) = Some [] \<Longrightarrow> \<not> truthy (chat_input w) \<Longrightarrow>
     state (fst (display_chat_interface w e pd c)) = state c \<and> snd (display_chat_interface w e pd c) = Finished"
  by (simp add: display_chat_interface_def Let_def history_def)

lemma script_extends_history:
  assumes "\<not> btn_clear w"
  shows "\<exists>ms. session_history (state (fst (script w e s d))) = session_history s @ ms"
  using script_step [OF assms, of e s d] by blast

section \<open>Entering the page that chats with prescription data\<close>

lemma get_db_connection_connection: "fst (get_db_connection e c) = connection e"
  by (simp add: get_db_connection_def connection_def split: option.splits)

lemma connection_None: "connection e = None \<longleftrightarrow> db_ping e \<noteq> None"
  by (simp add: connection_def get_db_connection_def split: option.splits)

lemma page_chat_with_data_resolve:
  "page_chat_with_data w e col c =
     finish_page w e (resolve_prescription_data w e col (emit (Subheader ''Chat with Prescription Data'') c))"
  by (simp add: page_chat_with_data_def finish_page_def Let_def split_beta)

lemma script_chat_page:
  assumes "page s = Some ChatWithData" and "radio w = ChatWithData"
  shows "script w e s d = finish_page w e (resolve_prescription_data w e (connection e) (chat_page_start e s d))"
proof -
  from assms(1) have "current_page s = ChatWithData"
    by (simp add: current_page_def)
  with assms(2) show ?thesis
    by (simp add: script_def main_unfold page_chat_with_data_resolve chat_page_start_def Let_def
        get_db_connection_connection)
qed

lemma chat_page_start_frame [simp]:
  "state (chat_page_start e s d) = (init_current s)\<lparr>page := Some (current_page s)\<rparr>"
  "db (chat_page_start e s d) = d"
  "api_calls (chat_page_start e s d) = []"
  "\<not> chat_panel_shown (chat_page_start e s d)"
  by (simp_all add: chat_page_start_def Let_def header_def current_page_def init_current_def
      split: option.splits)

lemma has_current_prescription_page_update [simp]:
  "has_current_prescription (s\<lparr>page := p\<rparr>) = has_current_prescription s"
  by (simp add: has_current_prescription_def)

lemma has_current_prescription_init_current [simp]:
  "has_current_prescription (init_current s) = has_current_prescription s"
  by (simp add: has_current_prescription_def init_current_def)

lemma find_sorted_Nil [simp]: "find_sorted d = [] \<longleftrightarrow> d = []"
  using length_sort [of "\<lambda>p. - upload_date p" d]
  by (auto simp: find_sorted_def simp del: length_sort)

lemma fetch_stored_prescriptions_value:
  "fst (fetch_stored_prescriptions e col c) = (if db_find e = None then find_sorted (db c) else [])"
  by (simp add: fetch_stored_prescriptions_def split: option.splits)

lemma resolve_no_data:
  assumes "\<not> has_current_prescription (state c)"
    and "db_ping e \<noteq> None \<or> db_find e \<noteq> None \<or> db c = []"
  shows "fst (resolve_prescription_data w e (connection e) c) = Inl Finished"
    and "\<exists>us. rendered (snd (resolve_prescription_data w e (connection e) c)) = rendered c @ us @ [guidance e]
              \<and> \<not> list_ex is_chat_input us"
proof -
  show "fst (resolve_prescription_data w e (connection e) c) = Inl Finished"
    using assms connection_None [of e]
    by (cases "connection e")
      (auto simp: resolve_prescription_data_def Let_def split_beta fetch_stored_prescriptions_value)
  show "\<exists>us. rendered (snd (resolve_prescription_data w e (connection e) c)) = rendered c @ us @ [guidance e]
              \<and> \<not> list_ex is_chat_input us"
  proof (cases "connection e")
    case None
    then have "db_ping e \<noteq> None"
      using connection_None [of e] by simp
    with assms(1) None
    have "rendered (snd (resolve_prescription_data w e (connection e) c)) = rendered c @ [] @ [guidance e]"
      by (simp add: resolve_prescription_data_def Let_def guidance_def)
    then show ?thesis by (intro exI [of _ "[]"]) simp
  next
    case (Some cl)
    then have p: "db_ping e = None"
      using connection_None [of e] by simp
    show ?thesis
    proof (cases "db_find e")
      case None
      with assms(2) p have "db c = []" by simp
      with assms(1) Some None p
      have "rendered (snd (resolve_prescription_data w e (connection e) c)) = rendered c @ [] @ [guidance e]"
        by (simp add: resolve_prescription_data_def Let_def split_beta guidance_def
            fetch_stored_prescriptions_def)
      then show ?thesis by (intro exI [of _ "[]"]) simp
    next
      case (Some ex)
      with assms(1) \<open>connection e = Some cl\<close> p
      have "rendered (snd (resolve_prescription_data w e (connection e) c)) =
              rendered c @ [Error (''Error fetching prescriptions: '' @ str_exc ex)] @ [guidance e]"
        by (simp add: resolve_prescription_data_def Let_def split_beta guidance_def
            fetch_stored_prescriptions_def)
      then show ?thesis
        by (intro exI [of _ "[Error (''Error fetching prescriptions: '' @ str_exc ex)]"]) simp
    qed
  qed
qed

text \<open>No data and no active text: the guidance, and the page is over.\<close>

lemma no_data_guidance:
  assumes "page s = Some ChatWithData" and "radio w = ChatWithData"
    and "\<not> has_current_prescription s"
    and "db_ping e \<noteq> None \<or> db_find e \<noteq> None \<or> d = []"
  shows "snd (script w e s d) = Finished"
    and "last (rendered (fst (script w e s d))) = guidance e"
    and "\<not> chat_panel_shown (fst (script w e s d))"
    and "session_history (state (fst (script w e s d))) = session_history s"
    and "api_calls (fst (script w e s d)) = []"
proof -
  let ?c = "chat_page_start e s d"
  let ?r = "resolve_prescription_data w e (connection e) ?c"
  have nc: "\<not> has_current_prescription (state ?c)"
    using assms(3) by simp
  have nd: "db_ping e \<noteq> None \<or> db_find e \<noteq> None \<or> db ?c = []"
    using assms(4) by simp
  from resolve_no_data(1) [OF nc nd] have f: "fst ?r = Inl Finished" .
  from resolve_no_data(2) [OF nc nd, of w] obtain us
    where us: "rendered (snd ?r) = rendered ?c @ us @ [guidance e]" "\<not> list_ex is_chat_input us"
    by blast
  from f have sc: "script w e s d = (snd ?r, Finished)"
    by (simp add: script_chat_page [OF assms(1,2)] finish_page_def)
  show "snd (script w e s d) = Finished"
    by (simp add: sc)
  show "last (rendered (fst (script w e s d))) = guidance e"
    by (simp add: sc us(1))
  show "\<not> chat_panel_shown (fst (script w e s d))"
    by (simp add: sc)
  show "session_history (state (fst (script w e s d))) = session_history s"
    by (simp add: sc session_history_def init_current_def)
  show "api_calls (fst (script w e s d)) = []"
    by (simp add: sc)
qed

lemma active_text_None_no_current: "active_text s = None \<Longrightarrow> \<not> has_current_prescription s"
  by (auto simp: active_text_def has_current_prescription_def split: option.splits)

section \<open>The selector\<close>

lemma selectors_emit [simp]: "selectors (emit u c) = selectors c @ (if is_selectbox u then [u] else [])"
  by (simp add: selectors_def)

lemma selectors_updates [simp]:
  "selectors (set_history h c) = selectors c"
  "selectors (append_message r v c) = selectors c"
  "selectors (c\<lparr>api_calls := x\<rparr>) = selectors c"
  by (simp_all add: selectors_def)

lemma selectors_replay [simp]:
  "selectors (foldl (\<lambda>c m. emit (ChatMessage (f m) (g m)) c) c ms) = selectors c"
  by (induction ms arbitrary: c) simp_all

lemma selectors_panel [simp]: "selectors (fst (display_chat_interface w e pd c)) = selectors c"
  by (simp add: display_chat_interface_def Let_def split_beta)

lemma selectors_chat_panel [simp]: "selectors (fst (chat_panel w e pd c)) = selectors c"
  by (simp add: chat_panel_def)

lemma selectors_chat_page_start [simp]: "selectors (chat_page_start e s d) = []"
  by (simp add: chat_page_start_def header_def Let_def get_db_connection_def selectors_def
      split: option.splits)

lemma map_enumerate: "map f (enumerate 0 xs) = map (\<lambda>i. f (i, xs ! i)) [0..<length xs]"
  by (rule nth_equalityI) (simp_all add: nth_enumerate_eq)

lemma newest_first_find_sorted: "newest_first (find_sorted d)"
proof -
  have "sorted (map (\<lambda>p. - upload_date p) (find_sorted d))"
    unfolding find_sorted_def by (rule sorted_sort_key)
  then show ?thesis
    by (simp add: newest_first_def sorted_map)
qed

lemma mset_find_sorted: "mset (find_sorted d) = mset d"
  by (simp add: find_sorted_def)

lemma length_find_sorted [simp]: "length (find_sorted d) = length d"
  by (simp add: find_sorted_def)

lemma prescription_options_eq:
  "prescription_options e s ps =
     (if has_current_prescription s then [''Current Extracted Prescription''] else [])
     @ ''All Prescriptions'' # record_labels e ps"
  by (simp add: prescription_options_def Let_def record_labels_def map_enumerate option_label_def)

lemma resolve_with_records:
  assumes "db_ping e = None" and "db_find e = None" and "db c \<noteq> []"
  shows "snd (resolve_prescription_data w e (connection e) c) =
           emit (Selectbox ''Choose prescription data to query''
                   (prescription_options e (state c) (find_sorted (db c)))) c"
    and "fst (resolve_prescription_data w e (connection e) c) =
           (case data_of_selection
                   (selected (prescription_options e (state c) (find_sorted (db c))) (select_index w))
                   (state c) (find_sorted (db c)) of
              Inl ex \<Rightarrow> Inl (Crashed ex)
            | Inr v \<Rightarrow> Inr v)"
proof -
  from assms(1) obtain cl where cl: "connection e = Some cl"
    using connection_None [of e] by (cases "connection e") simp_all
  from assms(2) have f: "fetch_stored_prescriptions e cl c = (find_sorted (db c), c)"
    by (simp add: fetch_stored_prescriptions_def)
  show "snd (resolve_prescription_data w e (connection e) c) =
           emit (Selectbox ''Choose prescription data to query''
                   (prescription_options e (state c) (find_sorted (db c)))) c"
    using assms(3) by (simp add: resolve_prescription_data_def cl f Let_def split: sum.splits)
  show "fst (resolve_prescription_data w e (connection e) c) =
           (case data_of_selection
                   (selected (prescription_options e (state c) (find_sorted (db c))) (select_index w))
                   (state c) (find_sorted (db c)) of
              Inl ex \<Rightarrow> Inl (Crashed ex)
            | Inr v \<Rightarrow> Inr v)"
    using assms(3) by (simp add: resolve_prescription_data_def cl f Let_def split: sum.splits)
qed

lemma selectors_finish_page [simp]: "selectors (fst (finish_page w e r)) = selectors (snd r)"
  by (simp add: finish_page_def split: sum.splits)

lemma prescription_options_page_update [simp]:
  "prescription_options e (s\<lparr>page := p\<rparr>) ps = prescription_options e s ps"
  by (simp add: prescription_options_def)

lemma prescription_options_init_current [simp]:
  "prescription_options e (init_current s) ps = prescription_options e s ps"
  by (simp add: prescription_options_def)

lemma script_selector:
  assumes "page s = Some ChatWithData" and "radio w = ChatWithData"
    and "db_ping e = None" and "db_find e = None" and "d \<noteq> []"
  shows "selectors (fst (script w e s d)) =
           [Selectbox ''Choose prescription data to query'' (prescription_options e s (find_sorted d))]"
proof -
  have "db (chat_page_start e s d) \<noteq> []"
    using assms(5) by simp
  from resolve_with_records(1) [OF assms(3,4) this, of w] show ?thesis
    by (simp add: script_chat_page [OF assms(1,2)])
qed

section \<open>States a session reaches\<close>

lemma script_keeps_text_nonempty:
  assumes "current_prescription s \<noteq> Some (Some [])"
  shows "current_prescription (state (fst (script w e s d))) \<noteq> Some (Some [])"
proof (cases "extraction_transition w e s")
  case True
  then have "truthy (extraction e)"
    by (simp add: extraction_transition_def)
  then have "extraction e \<noteq> Some []"
    by auto
  with True show ?thesis
    by (simp add: script_current)
next
  case False
  with assms show ?thesis
    by (simp add: script_current init_current_def)
qed

lemma session_keeps_text_nonempty:
  "current_prescription s \<noteq> Some (Some []) \<Longrightarrow>
     current_prescription (fst (run_session s d steps)) \<noteq> Some (Some [])"
proof (induction steps arbitrary: s d)
  case Nil
  then show ?case by simp
next
  case (Cons x xs)
  from Cons.prems have "current_prescription (state (fst (script (fst x) (snd x) s d))) \<noteq> Some (Some [])"
    by (rule script_keeps_text_nonempty)
  from Cons.IH [OF this] show ?case
    by (simp add: Let_def)
qed

lemma has_current_iff_active:
  "current_prescription s \<noteq> Some (Some []) \<Longrightarrow> has_current_prescription s \<longleftrightarrow> active_text s \<noteq> None"
  by (auto simp: has_current_prescription_def active_text_def split: option.splits)

section \<open>All prescriptions\<close>

lemma all_prescriptions_text_eq:
  "all_prescriptions_text ps = join [CHR 0x0A, CHR 0x0A] (numbered_texts ps)"
  by (simp add: all_prescriptions_text_def numbered_texts_def map_enumerate all_entry_def)

lemma str_nat_digits: "str_nat (Suc 0) = ''1''" "str_nat (Suc (Suc 0)) = ''2''"
  by code_simp+

lemma find_sorted_pair:
  "upload_date r2 < upload_date r1 \<Longrightarrow> find_sorted [r2, r1] = [r1, r2]"
  "upload_date r2 < upload_date r1 \<Longrightarrow> find_sorted [r1, r2] = [r1, r2]"
  by (simp_all add: find_sorted_def)

lemma all_prescriptions_text_pair:
  "all_prescriptions_text [r1, r2] =
     ''Prescription 1:'' @ [CHR 0x0A] @ extracted_text r1 @ [CHR 0x0A, CHR 0x0A]
     @ ''Prescription 2:'' @ [CHR 0x0A] @ extracted_text r2"
  by (simp add: all_prescriptions_text_def all_entry_def enumerate_eq_zip str_nat_digits
      upt_rec [of 0] upt_rec [of 1])

lemma data_of_selection_all:
  "data_of_selection ''All Prescriptions'' s ps = Inr (Some (all_prescriptions_text ps))"
  by (simp add: data_of_selection_def)

lemma session_history_page_update [simp]: "session_history (s\<lparr>page := p\<rparr>) = session_history s"
  by (simp add: session_history_def)

lemma chat_panel_calls:
  "api_calls (fst (chat_panel w e pd c)) = api_calls c @ turn_calls w e pd"
  by (simp add: chat_panel_def display_chat_interface_calls)

lemma chat_panel_data_shown:
  "TextArea ''Prescription Data'' (str_or_empty pd) \<in> set (rendered (fst (chat_panel w e pd c)))"
  by (simp add: chat_panel_def display_chat_interface_def Let_def split_beta)

section \<open>An empty active text\<close>

lemma record_label_not_current: "''Current Extracted Prescription'' \<notin> set (record_labels e ps)"
  by (auto simp: record_labels_def)

section \<open>A scan without text\<close>

lemma strip_white: "list_all is_space t \<Longrightarrow> strip t = []"
  by (auto simp: strip_def list_all_iff dest: set_dropWhileD)

lemma extract_text_from_image_ok: "ocr e = Inr t \<Longrightarrow> snd (extract_text_from_image e c) = c"
  by (simp add: extract_text_from_image_def)

lemma extraction_white:
  "ocr e = Inr t \<Longrightarrow> t \<noteq> [] \<Longrightarrow> list_all is_space t \<Longrightarrow> extraction e = Some []"
  by (simp add: extraction_def extract_text_from_image_def strip_white)

lemma extraction_empty: "ocr e = Inr [] \<Longrightarrow> extraction e = Some ''No text detected''"
  by (simp add: extraction_def extract_text_from_image_def)

lemma white_scan_offers_nothing:
  assumes "ocr e = Inr t" and "t \<noteq> []" and "list_all is_space t"
    and "current_page s = ExtractText" and "radio w = ExtractText"
  shows "buttons (fst (script w e s d)) = [] \<or> buttons (fst (script w e s d)) = [Button ''Extract Text'' []]"
    and "active_text (state (fst (script w e s d))) = active_text s"
    and "db (fst (script w e s d)) = d"
proof -
  from extraction_white [OF assms(1-3)] have x: "extraction e = Some []" .
  let ?h = "header (start (init_current s) d)"
  let ?g = "get_db_connection e ?h"
  have b: "buttons (snd ?g) = []"
    by (simp add: buttons_def header_def Let_def get_db_connection_def split: option.splits)
  have sc: "script w e s d = page_extract_text w e (fst ?g) (snd ?g)"
    using assms(4,5) by (simp add: script_def main_unfold)
  have r: "rendered (fst (page_extract_text w e (fst ?g) (snd ?g))) =
             rendered (snd ?g) @
               (case uploaded_file w of
                  None \<Rightarrow> [FileUploader ''Choose an image...'']
                | Some f \<Rightarrow>
                    (case image_open e of
                       Some ex \<Rightarrow> [FileUploader ''Choose an image...'']
                     | None \<Rightarrow>
                         [FileUploader ''Choose an image...'', ImageEl ''Uploaded Prescription'',
                          Button ''Extract Text'' []]
                         @ (if btn_extract w then [Spinner ''Processing image...''] else [])))"
    using x assms(1)
    by (simp add: page_extract_text_def Let_def split_beta extract_text_from_image_value
        extract_text_from_image_ok split: option.splits)
  show "buttons (fst (script w e s d)) = [] \<or> buttons (fst (script w e s d)) = [Button ''Extract Text'' []]"
    using b by (simp add: sc buttons_def r split: option.splits)
  from x have "\<not> extraction_transition w e s"
    by (simp add: extraction_transition_def)
  then have "current_prescription (state (fst (script w e s d))) = current_prescription (init_current s)"
    by (simp add: script_current)
  then have "active_text (state (fst (script w e s d))) = active_text (init_current s)"
    by (rule active_text_eq)
  then show "active_text (state (fst (script w e s d))) = active_text s"
    by simp
  show "db (fst (script w e s d)) = d"
    using x assms(1)
    by (simp add: sc page_extract_text_def Let_def split_beta extract_text_from_image_value
        extract_text_from_image_ok split: option.splits)
qed

lemma empty_scan_offers_actions:
  "extraction empty_scan = Some ''No text detected''
   \<and> buttons (fst (script extract_and_chat empty_scan initial_session [])) =
       [Button ''Extract Text'' [],
        Button ''Submit to Database'' ''submit_to_db_button'',
        Button ''View Stored Prescriptions'' ''view_prescriptions_button'',
        Button ''Chat with this Prescription'' ''chat_prescription_button'']
   \<and> active_text (state (fst (script extract_and_chat empty_scan initial_session []))) = Some ''No text detected''"
  by code_simp

lemma empty_scan_persisted:
  "map extracted_text (db (fst (script extract_and_submit empty_scan initial_session []))) = [''No text detected'']"
  by code_simp

lemma empty_scan_without_store:
  "buttons (fst (script extract_and_chat empty_scan_no_store initial_session [])) =
       [Button ''Extract Text'' [],
        Button ''Chat with this Prescription'' ''chat_prescription_no_db_button'']"
  by code_simp

section \<open>Properties\<close>

text \<open>
  C1. In every session from the initial state the chat history consists of a user
  message followed by an assistant message for each completed chat turn since the clear
  control was last used (since the start, if it never was), whatever the completion
  service does: its length is exactly twice the number of those turns. In a session in
  which the clear button is never pressed these are all the completed turns of the
  session.
\<close>

theorem chat_history_two_per_turn_since_clear:
  "length (session_history (fst (run_session initial_session d steps))) =
     2 * turns_since_clear initial_session d steps 0
   \<and> alternating (session_history (fst (run_session initial_session d steps)))
   \<and> ((\<forall>x \<in> set steps. \<not> btn_clear (fst x)) \<longrightarrow>
        turns_since_clear initial_session d steps 0 = count_turns initial_session d steps)"
proof -
  have "alternating (session_history initial_session)"
    and "length (session_history initial_session) = 2 * 0"
    by (simp_all add: session_history_def initial_session_def)
  from session_since_clear [OF this] turns_without_clear [of steps initial_session d 0]
  show ?thesis by simp
qed

theorem chat_history_two_per_turn_since_clear_witness:
  "map (\<lambda>x. btn_clear (fst x)) two_turns = [False, False, False]
   \<and> count_turns initial_session [] two_turns = 2
   \<and> length (session_history (fst (run_session initial_session [] two_turns))) = 4
   \<and> alternating (session_history (fst (run_session initial_session [] two_turns)))
   \<and> turns_since_clear initial_session [] ask_then_clear 0 = 0
   \<and> length (session_history (fst (run_session initial_session [] ask_then_clear))) = 0"
proof -
  have h: "\<forall>x \<in> set two_turns. \<not> btn_clear (fst x)"
    by (simp add: two_turns_def idle_def)
  have m: "map (\<lambda>x. btn_clear (fst x)) two_turns = [False, False, False]"
    by (simp add: two_turns_def idle_def)
  have n: "count_turns initial_session [] two_turns = 2"
    by code_simp
  have z: "turns_since_clear initial_session [] ask_then_clear 0 = 0"
    by code_simp
  from chat_history_two_per_turn_since_clear [of "[]" two_turns]
    chat_history_two_per_turn_since_clear [of "[]" ask_then_clear] h m n z
  show ?thesis by simp
qed

text \<open>
  Counting every completed turn of the session fails once the clear button is used:
  after going to the direct chat, asking once and pressing the clear button, one turn
  has been completed and the history is empty.
\<close>

theorem chat_history_two_per_turn_counterexample:
  "count_turns initial_session [] ask_then_clear = 1
   \<and> session_history (fst (run_session initial_session [] ask_then_clear)) = []
   \<and> length (session_history (fst (run_session initial_session [] ask_then_clear)))
       \<noteq> 2 * count_turns initial_session [] ask_then_clear"
  by code_simp

text \<open>
  C2. A scan whose OCR output is white space only (what the engine returns for a page
  without text): \<open>extract_text_from_image\<close> strips it to the empty string, the
  placeholder \<^verbatim>\<open>No text detected\<close> being substituted only for an output that is
  empty before stripping, and \<open>main\<close> then renders nothing under the spinner. With every
  button pressed the run offers no button but \<^verbatim>\<open>Extract Text\<close>: neither the transition
  to the chat page nor the persist action, and it records no active prescription text
  and stores nothing.
\<close>

theorem blank_scan_offers_nothing:
  "extraction blank_scan = Some []
   \<and> buttons (fst (script press_all blank_scan initial_session [])) = [Button ''Extract Text'' []]
   \<and> active_text (state (fst (script press_all blank_scan initial_session []))) = None
   \<and> db (fst (script press_all blank_scan initial_session [])) = []
   \<and> snd (script press_all blank_scan initial_session []) = Finished"
  by code_simp

text \<open>
  C3. When the chat-service credential is absent (the environment variable is not set, or
  is empty), a completed chat turn without the clear button appends the user message and an
  assistant message whose content is exactly the literal about the missing key, posts no
  request, and the run finishes normally; \<open>query_mistral_api\<close> itself returns the literal
  and sends nothing, for every prompt and every prescription data.
\<close>

theorem missing_key_turn:
  assumes "\<not> truthy (mistral_api_key e)" and "completed_turn w e s d" and "\<not> btn_clear w"
  shows "session_history (state (fst (script w e s d))) =
           session_history s @
             [user_message (the (chat_input w)), assistant_message (JStr key_error_text)]
         \<and> api_calls (fst (script w e s d)) = []
         \<and> snd (script w e s d) = Finished
         \<and> query_mistral_api e q pd = (JStr key_error_text, [])"
  using completed_turn_effect [OF assms(2,3)] assms(1)
  by (auto simp: query_without_key)

theorem missing_key_turn_witness:
  "mistral_api_key offline = None
   \<and> completed_turn ask offline direct_session []
   \<and> btn_clear ask = False
   \<and> session_history (state (fst (script ask offline direct_session []))) =
        [user_message ''What is the dosage?'',
         assistant_message (JStr ''Error: Mistral API key not found. Please set it in the .env file.'')]
   \<and> api_calls (fst (script ask offline direct_session [])) = []"
proof -
  have k: "\<not> truthy (mistral_api_key offline)"
    by (simp add: offline_def)
  have t: "completed_turn ask offline direct_session []"
    by code_simp
  have b: "\<not> btn_clear ask"
    by (simp add: ask_def idle_def)
  from missing_key_turn [OF k t b] t show ?thesis
    by (simp add: offline_def ask_def idle_def direct_session_def initial_session_def
        session_history_def key_error_text_def)
qed

text \<open>
  C4. With a credential, a completed chat turn without the clear button posts exactly
  one request, the one the interface of the service describes, with the credential and
  the query, and finishes normally whatever the service does with it. When the call fails
  (the request raises, the status is between 400 and 599, the body is not JSON, or the
  completion is missing at \<^verbatim>\<open>choices[0].message.content\<close>), the assistant message
  appended after the user message is the literal \<^verbatim>\<open>Error querying Mistral API: \<close>
  followed by the text of that failure; when it does not fail, the assistant message is
  the completion of the reply.
\<close>

theorem completion_failure_is_reply:
  assumes "mistral_api_key e = Some k" and "k \<noteq> []"
    and "completed_turn w e s d" and "\<not> btn_clear w"
  shows "\<exists>sys.
           (let rq = expected_request k sys (the (chat_input w))
            in api_calls (fst (script w e s d)) = [rq]
               \<and> snd (script w e s d) = Finished
               \<and> (\<forall>t. failure_text rq (post e rq) = Some t \<longrightarrow>
                    session_history (state (fst (script w e s d))) =
                      session_history s @
                        [user_message (the (chat_input w)),
                         assistant_message (JStr (''Error querying Mistral API: '' @ t))])
               \<and> (failure_text rq (post e rq) = None \<longrightarrow>
                    (\<exists>v. completion_text (post e rq) = Some v
                       \<and> session_history (state (fst (script w e s d))) =
                           session_history s @
                             [user_message (the (chat_input w)), assistant_message v])))"
proof -
  let ?q = "the (chat_input w)"
  from completed_turn_effect [OF assms(3,4)] obtain pd where
    h: "session_history (state (fst (script w e s d))) =
          session_history s @
            [user_message ?q, assistant_message (fst (query_mistral_api e ?q pd))]"
    and c: "api_calls (fst (script w e s d)) = snd (query_mistral_api e ?q pd)"
    and f: "snd (script w e s d) = Finished"
    by blast
  let ?rq = "expected_request k (system_message_for pd) ?q"
  have x: "query_mistral_api e ?q pd = (expected_reply ?rq (post e ?rq), [?rq])"
    using query_expected [OF assms(1,2), of ?q pd] by (simp add: build_request_expected)
  have 1: "api_calls (fst (script w e s d)) = [?rq]"
    using c x by simp
  have 2: "session_history (state (fst (script w e s d))) =
             session_history s @
               [user_message ?q, assistant_message (JStr (''Error querying Mistral API: '' @ t))]"
    if "failure_text ?rq (post e ?rq) = Some t" for t
    using h x that by (simp add: expected_reply_def)
  have 3: "\<exists>v. completion_text (post e ?rq) = Some v
             \<and> session_history (state (fst (script w e s d))) =
                 session_history s @ [user_message ?q, assistant_message v]"
    if n: "failure_text ?rq (post e ?rq) = None"
  proof -
    from no_failure_completion [OF n] obtain v where v: "completion_text (post e ?rq) = Some v" ..
    with h x n have "session_history (state (fst (script w e s d))) =
                 session_history s @ [user_message ?q, assistant_message v]"
      by (simp add: expected_reply_def)
    with v show ?thesis by blast
  qed
  from 1 f 2 3 show ?thesis
    by (intro exI [of _ "system_message_for pd"]) (simp add: Let_def)
qed

theorem completion_failure_is_reply_witness:
  "mistral_api_key online = Some ''k''
   \<and> completed_turn ask online direct_session [] \<and> btn_clear ask = False
   \<and> (\<exists>sys. api_calls (fst (script ask online direct_session [])) =
              [expected_request ''k'' sys ''What is the dosage?''])
   \<and> session_history (state (fst (script ask online direct_session []))) =
        [user_message ''What is the dosage?'',
         assistant_message (JStr ''Error querying Mistral API: connection refused'')]
   \<and> session_history (state (fst (script ask unauthorized direct_session []))) =
        [user_message ''What is the dosage?'',
         assistant_message (JStr ''Error querying Mistral API: 401 Client Error: Unauthorized for url: https://api.mistral.ai/v1/chat/completions'')]
   \<and> session_history (state (fst (script ask malformed direct_session []))) =
        [user_message ''What is the dosage?'',
         assistant_message (JStr ''Error querying Mistral API: list index out of range'')]
   \<and> session_history (state (fst (script ask answering direct_session []))) =
        [user_message ''What is the dosage?'', assistant_message (JStr ''Twice daily.'')]"
proof -
  have k: "mistral_api_key online = Some ''k''" "mistral_api_key unauthorized = Some ''k''"
    "mistral_api_key malformed = Some ''k''" "mistral_api_key answering = Some ''k''"
    by (simp_all add: online_def offline_def unauthorized_def malformed_def answering_def)
  have ne: "''k'' \<noteq> []"
    by simp
  have t: "completed_turn ask online direct_session []" "completed_turn ask unauthorized direct_session []"
    "completed_turn ask malformed direct_session []" "completed_turn ask answering direct_session []"
    by code_simp+
  have b: "\<not> btn_clear ask"
    by (simp add: ask_def idle_def)
  have q: "the (chat_input ask) = ''What is the dosage?''"
    by (simp add: ask_def)
  have h0: "session_history direct_session = []"
    by (simp add: direct_session_def initial_session_def session_history_def)
  have n401: "str_nat 401 = ''401''"
    by code_simp
  have f1: "failure_text rq (post online rq) = Some ''connection refused''" for rq
    by (simp add: failure_text_def online_def offline_def)
  have f2: "failure_text (expected_request ''k'' sys ''What is the dosage?'')
              (post unauthorized (expected_request ''k'' sys ''What is the dosage?'')) =
            Some ''401 Client Error: Unauthorized for url: https://api.mistral.ai/v1/chat/completions''" for sys
    by (simp add: failure_text_def unauthorized_def status_text_def n401 expected_request_def)
  have f3: "failure_text rq (post malformed rq) = Some ''list index out of range''" for rq
    by (simp add: failure_text_def malformed_def status_text_def content_at_def member_def
        first_item_def missing_text_def no_first_text_def)
  have f4: "failure_text rq (post answering rq) = None"
    "completion_text (post answering rq) = Some (JStr ''Twice daily.'')" for rq
    by (simp_all add: failure_text_def completion_text_def answering_def status_text_def content_at_def
        member_def first_item_def)
  from completion_failure_is_reply [OF k(1) ne t(1) b] q h0 f1
  have 1: "(\<exists>sys. api_calls (fst (script ask online direct_session [])) =
              [expected_request ''k'' sys ''What is the dosage?''])"
    and 2: "session_history (state (fst (script ask online direct_session []))) =
        [user_message ''What is the dosage?'',
         assistant_message (JStr ''Error querying Mistral API: connection refused'')]"
    by (auto simp: Let_def)
  from completion_failure_is_reply [OF k(2) ne t(2) b] q h0 f2
  have 3: "session_history (state (fst (script ask unauthorized direct_session []))) =
        [user_message ''What is the dosage?'',
         assistant_message (JStr ''Error querying Mistral API: 401 Client Error: Unauthorized for url: https://api.mistral.ai/v1/chat/completions'')]"
    by (auto simp: Let_def)
  from completion_failure_is_reply [OF k(3) ne t(3) b] q h0 f3
  have 4: "session_history (state (fst (script ask malformed direct_session []))) =
        [user_message ''What is the dosage?'',
         assistant_message (JStr ''Error querying Mistral API: list index out of range'')]"
    by (auto simp: Let_def)
  from completion_failure_is_reply [OF k(4) ne t(4) b] q h0 f4
  have 5: "session_history (state (fst (script ask answering direct_session []))) =
        [user_message ''What is the dosage?'', assistant_message (JStr ''Twice daily.'')]"
    by (auto simp: Let_def)
  from k(1) t(1) b 1 2 3 4 5 show ?thesis
    by (simp only: simp_thms)
qed

text \<open>
  C5. On the page that chats with prescription data, with the store connected, the query
  succeeding and at least one record stored, choosing \<^verbatim>\<open>All Prescriptions\<close> runs the
  chat panel with the concatenation of every stored text, each under its 1-based
  ordinal, separated by blank lines, the records taken newest first: it is the text shown
  in the expander and the context of the request of a turn. For two records the newer
  one's entry, with its full text, comes before the older one's.
\<close>

theorem all_prescriptions_selected:
  assumes "page s = Some ChatWithData" and "radio w = ChatWithData"
    and "db_ping e = None" and "db_find e = None" and "d \<noteq> []"
    and "selected (prescription_options e s (find_sorted d)) (select_index w) = ''All Prescriptions''"
  shows "(\<exists>c0. script w e s d = chat_panel w e (Some (all_prescriptions_text (find_sorted d))) c0
             \<and> api_calls c0 = [] \<and> session_history (state c0) = session_history s)
         \<and> all_prescriptions_text (find_sorted d) = join [CHR 0x0A, CHR 0x0A] (numbered_texts (find_sorted d))
         \<and> newest_first (find_sorted d) \<and> mset (find_sorted d) = mset d
         \<and> TextArea ''Prescription Data'' (all_prescriptions_text (find_sorted d))
              \<in> set (rendered (fst (script w e s d)))
         \<and> api_calls (fst (script w e s d)) = turn_calls w e (Some (all_prescriptions_text (find_sorted d)))
         \<and> (upload_date r2 < upload_date r1 \<longrightarrow>
              all_prescriptions_text (find_sorted [r2, r1]) =
                ''Prescription 1:'' @ [CHR 0x0A] @ extracted_text r1 @ [CHR 0x0A, CHR 0x0A]
                @ ''Prescription 2:'' @ [CHR 0x0A] @ extracted_text r2)"
proof -
  let ?c = "chat_page_start e s d"
  let ?r = "resolve_prescription_data w e (connection e) ?c"
  let ?t = "all_prescriptions_text (find_sorted d)"
  have nd: "db ?c \<noteq> []"
    using assms(5) by simp
  have "fst ?r = Inr (Some ?t)"
    using resolve_with_records(2) [OF assms(3,4) nd, of w] assms(6)
    by (simp add: data_of_selection_all)
  then have sc: "script w e s d = chat_panel w e (Some ?t) (snd ?r)"
    by (simp add: script_chat_page [OF assms(1,2)] finish_page_def)
  have "api_calls (snd ?r) = []" "session_history (state (snd ?r)) = session_history s"
    by simp_all
  with sc have 1: "\<exists>c0. script w e s d = chat_panel w e (Some ?t) c0
             \<and> api_calls c0 = [] \<and> session_history (state c0) = session_history s"
    by blast
  have 2: "TextArea ''Prescription Data'' ?t \<in> set (rendered (fst (script w e s d)))"
    using chat_panel_data_shown [of "Some ?t" w e "snd ?r"] by (simp add: sc str_or_empty_def)
  have 3: "api_calls (fst (script w e s d)) = turn_calls w e (Some ?t)"
    by (simp add: sc chat_panel_calls)
  have 4: "upload_date r2 < upload_date r1 \<longrightarrow>
              all_prescriptions_text (find_sorted [r2, r1]) =
                ''Prescription 1:'' @ [CHR 0x0A] @ extracted_text r1 @ [CHR 0x0A, CHR 0x0A]
                @ ''Prescription 2:'' @ [CHR 0x0A] @ extracted_text r2"
  proof
    assume "upload_date r2 < upload_date r1"
    then have "find_sorted [r2, r1] = [r1, r2]"
      by (rule find_sorted_pair(1))
    then show "all_prescriptions_text (find_sorted [r2, r1]) =
                ''Prescription 1:'' @ [CHR 0x0A] @ extracted_text r1 @ [CHR 0x0A, CHR 0x0A]
                @ ''Prescription 2:'' @ [CHR 0x0A] @ extracted_text r2"
      by (simp only: all_prescriptions_text_pair)
  qed
  from 1 2 3 4 show ?thesis
    by (simp only: all_prescriptions_text_eq newest_first_find_sorted mset_find_sorted simp_thms)
qed

theorem all_prescriptions_selected_witness:
  "page after_extraction = Some ChatWithData \<and> radio choose_all = ChatWithData
   \<and> db_ping dated = None \<and> db_find dated = None
   \<and> selected (prescription_options dated after_extraction (find_sorted [older, newer])) (select_index choose_all)
        = ''All Prescriptions''
   \<and> upload_date older < upload_date newer
   \<and> all_prescriptions_text (find_sorted [older, newer]) =
        ''Prescription 1:'' @ [CHR 0x0A] @ ''Amoxicillin 500mg'' @ [CHR 0x0A, CHR 0x0A]
        @ ''Prescription 2:'' @ [CHR 0x0A] @ ''Ibuprofen 200mg''
   \<and> TextArea ''Prescription Data'' (all_prescriptions_text (find_sorted [older, newer]))
        \<in> set (rendered (fst (script choose_all dated after_extraction [older, newer])))"
proof -
  have p: "page after_extraction = Some ChatWithData"
    by code_simp
  have r: "radio choose_all = ChatWithData"
    by (simp add: choose_all_def open_chat_page_def)
  have g: "db_ping dated = None"
    by (simp add: dated_def online_def)
  have f: "db_find dated = None"
    by (simp add: dated_def online_def offline_def)
  have d: "[older, newer] \<noteq> []"
    by simp
  have c: "selected (prescription_options dated after_extraction (find_sorted [older, newer])) (select_index choose_all)
        = ''All Prescriptions''"
    by code_simp
  have u: "upload_date older < upload_date newer"
    by (simp add: older_def newer_def)
  have t: "extracted_text newer = ''Amoxicillin 500mg''" "extracted_text older = ''Ibuprofen 200mg''"
    by (simp_all add: older_def newer_def)
  from all_prescriptions_selected [OF p r g f d c, of older newer] u
  have "all_prescriptions_text (find_sorted [older, newer]) =
        ''Prescription 1:'' @ [CHR 0x0A] @ extracted_text newer @ [CHR 0x0A, CHR 0x0A]
        @ ''Prescription 2:'' @ [CHR 0x0A] @ extracted_text older"
    and "TextArea ''Prescription Data'' (all_prescriptions_text (find_sorted [older, newer]))
        \<in> set (rendered (fst (script choose_all dated after_extraction [older, newer])))"
    by blast+
  with p r g f c u t show ?thesis
    by (simp only: simp_thms)
qed

text \<open>
  C6. On the page that chats with prescription data, in a state a session reaches, with
  the store connected, the query succeeding and at least one record stored, exactly one
  select box is rendered and its options are, in this order: \<^verbatim>\<open>Current Extracted
  Prescription\<close> if and only if an active prescription text is set, then \<^verbatim>\<open>All
  Prescriptions\<close>, then for each record its 1-based ordinal and its upload date, the
  records taken newest first.
\<close>

theorem selector_options_in_order:
  assumes "s = fst (run_session initial_session d0 steps)"
    and "page s = Some ChatWithData" and "radio w = ChatWithData"
    and "db_ping e = None" and "db_find e = None" and "d \<noteq> []"
  shows "selectors (fst (script w e s d)) =
           [Selectbox ''Choose prescription data to query''
              ((if active_text s \<noteq> None then [''Current Extracted Prescription''] else [])
               @ ''All Prescriptions'' # record_labels e (find_sorted d))]
         \<and> newest_first (find_sorted d) \<and> mset (find_sorted d) = mset d"
proof -
  have "current_prescription initial_session \<noteq> Some (Some [])"
    by (simp add: initial_session_def)
  then have "current_prescription s \<noteq> Some (Some [])"
    unfolding assms(1) by (rule session_keeps_text_nonempty)
  then have "has_current_prescription s \<longleftrightarrow> active_text s \<noteq> None"
    by (rule has_current_iff_active)
  with script_selector [OF assms(2-6)] show ?thesis
    by (simp add: prescription_options_eq newest_first_find_sorted mset_find_sorted)
qed

theorem selector_options_in_order_witness:
  "page after_extraction = Some ChatWithData \<and> radio open_chat_page = ChatWithData
   \<and> db_ping dated = None \<and> db_find dated = None
   \<and> selectors (fst (script open_chat_page dated after_extraction [older, newer])) =
        [Selectbox ''Choose prescription data to query''
           [''Current Extracted Prescription'', ''All Prescriptions'',
            ''Prescription 1 - day 20'', ''Prescription 2 - day 10'']]"
proof -
  have s: "after_extraction = fst (run_session initial_session [] [(extract_and_chat, online)])"
    by (simp add: after_extraction_def)
  have p: "page after_extraction = Some ChatWithData"
    by code_simp
  have r: "radio open_chat_page = ChatWithData"
    by (simp add: open_chat_page_def)
  have g: "db_ping dated = None"
    by (simp add: dated_def online_def)
  have f: "db_find dated = None"
    by (simp add: dated_def online_def offline_def)
  have d: "[older, newer] \<noteq> []"
    by simp
  have opts: "(if active_text after_extraction \<noteq> None then [''Current Extracted Prescription''] else [])
               @ ''All Prescriptions'' # record_labels dated (find_sorted [older, newer]) =
        [''Current Extracted Prescription'', ''All Prescriptions'',
         ''Prescription 1 - day 20'', ''Prescription 2 - day 10'']"
    by code_simp
  from selector_options_in_order [OF s p r g f d] have
    "selectors (fst (script open_chat_page dated after_extraction [older, newer])) =
       [Selectbox ''Choose prescription data to query''
          ((if active_text after_extraction \<noteq> None then [''Current Extracted Prescription''] else [])
           @ ''All Prescriptions'' # record_labels dated (find_sorted [older, newer]))]"
    by blast
  with opts p r g f show ?thesis
    by (simp only: simp_thms)
qed

text \<open>
  C7. On the page that chats with prescription data, with no active prescription text
  and no data from the store (no connection, a failing query or no record), the run ends
  with the guidance to extract text first or use Direct Chat as its last element: no chat
  input is rendered, so the run is no chat turn, the history is unchanged and no request
  is sent.
\<close>

theorem no_data_no_chat_panel:
  assumes "page s = Some ChatWithData" and "radio w = ChatWithData"
    and "active_text s = None"
    and "db_ping e \<noteq> None \<or> db_find e \<noteq> None \<or> d = []"
  shows "snd (script w e s d) = Finished
         \<and> last (rendered (fst (script w e s d))) = guidance e
         \<and> \<not> chat_panel_shown (fst (script w e s d))
         \<and> \<not> completed_turn w e s d
         \<and> session_history (state (fst (script w e s d))) = session_history s
         \<and> api_calls (fst (script w e s d)) = []"
  using no_data_guidance [OF assms(1,2) active_text_None_no_current [OF assms(3)] assms(4)]
  by (simp add: completed_turn_def)

theorem no_data_no_chat_panel_witness:
  "page on_chat_page = Some ChatWithData \<and> radio open_chat_page = ChatWithData
   \<and> active_text on_chat_page = None
   \<and> db_ping offline = Some (Exc LibraryError ''connection refused'')
   \<and> snd (script open_chat_page offline on_chat_page []) = Finished
   \<and> last (rendered (fst (script open_chat_page offline on_chat_page []))) =
        Warning ''No prescription data available. Please extract text first or use Direct Chat.''
   \<and> chat_panel_shown (fst (script open_chat_page offline on_chat_page [])) = False"
proof -
  have p: "page on_chat_page = Some ChatWithData"
    by (simp add: on_chat_page_def)
  have r: "radio open_chat_page = ChatWithData"
    by (simp add: open_chat_page_def)
  have a: "active_text on_chat_page = None"
    by (simp add: on_chat_page_def initial_session_def active_text_def)
  have g: "db_ping offline = Some (Exc LibraryError ''connection refused'')"
    by (simp add: offline_def)
  then have n: "db_ping offline \<noteq> None \<or> db_find offline \<noteq> None \<or> ([] :: prescription list) = []"
    by simp
  from no_data_no_chat_panel [OF p r a n] p r a g show ?thesis
    by (simp add: guidance_def)
qed

text \<open>
  C8. A run changes the active prescription text only when it is the run that records an
  extraction (on the extraction page, a non-empty text extracted and the chat button
  pressed): then the text becomes the extracted one, the page becomes the chat page and
  the script reruns. Every other run leaves it as it was; in particular a run that
  navigates (the radio button differs from the page) only sets the page, and a run in
  which no chat button is pressed, such as a persist action that fails, leaves it unchanged.
\<close>

theorem active_text_only_set_by_extraction:
  "(if extraction_transition w e s
    then truthy (extraction e)
       \<and> active_text (state (fst (script w e s d))) = extraction e
       \<and> page (state (fst (script w e s d))) = Some ChatWithData
       \<and> snd (script w e s d) = Rerun
    else active_text (state (fst (script w e s d))) = active_text s)
   \<and> (radio w \<noteq> current_page s \<longrightarrow>
        active_text (state (fst (script w e s d))) = active_text s
        \<and> page (state (fst (script w e s d))) = Some (radio w))
   \<and> (\<not> btn_chat w \<and> \<not> btn_chat_no_db w \<longrightarrow>
        active_text (state (fst (script w e s d))) = active_text s)"
proof -
  have unchanged: "active_text (state (fst (script w e s d))) = active_text s"
    if "\<not> extraction_transition w e s"
  proof -
    from that have "current_prescription (state (fst (script w e s d))) = current_prescription (init_current s)"
      by (simp add: script_current)
    then have "active_text (state (fst (script w e s d))) = active_text (init_current s)"
      by (rule active_text_eq)
    then show ?thesis by simp
  qed
  have changed: "truthy (extraction e)
       \<and> active_text (state (fst (script w e s d))) = extraction e
       \<and> page (state (fst (script w e s d))) = Some ChatWithData
       \<and> snd (script w e s d) = Rerun"
    if t: "extraction_transition w e s"
  proof -
    from t have x: "truthy (extraction e)"
      by (simp add: extraction_transition_def)
    then obtain tx where tx: "extraction e = Some tx"
      by (cases "extraction e") simp_all
    from t have "current_prescription (state (fst (script w e s d))) = Some (extraction e)"
      by (simp add: script_current)
    with tx have a: "active_text (state (fst (script w e s d))) = extraction e"
      by (simp add: active_text_def)
    from t have t': "extraction_transition w e (state (start (init_current s) d))"
      by simp
    from main_transition [OF t'] x a show ?thesis
      by (simp add: script_def)
  qed
  have nav: "active_text (state (fst (script w e s d))) = active_text s
        \<and> page (state (fst (script w e s d))) = Some (radio w)"
    if n: "radio w \<noteq> current_page s"
  proof -
    from n have "\<not> extraction_transition w e s"
      by (auto simp: extraction_transition_def)
    then have "active_text (state (fst (script w e s d))) = active_text s"
      by (rule unchanged)
    moreover from n have "page (state (fst (script w e s d))) = Some (radio w)"
      by (auto simp: script_def main_unfold)
    ultimately show ?thesis ..
  qed
  have nochat: "active_text (state (fst (script w e s d))) = active_text s"
    if "\<not> btn_chat w \<and> \<not> btn_chat_no_db w"
  proof -
    from that have "\<not> extraction_transition w e s"
      by (auto simp: extraction_transition_def)
    then show ?thesis by (rule unchanged)
  qed
  show ?thesis
  proof (cases "extraction_transition w e s")
    case True
    with changed nav nochat show ?thesis by simp
  next
    case False
    with unchanged nav nochat show ?thesis by simp
  qed
qed

theorem active_text_only_set_by_extraction_witness:
  "extraction_transition extract_and_chat online initial_session
   \<and> active_text (state (fst (script extract_and_chat online initial_session []))) = Some ''Amoxicillin 500mg twice daily''
   \<and> page (state (fst (script extract_and_chat online initial_session []))) = Some ChatWithData
   \<and> radio (idle\<lparr>radio := DirectChat\<rparr>) \<noteq> current_page holding
   \<and> active_text (state (fst (script (idle\<lparr>radio := DirectChat\<rparr>) offline holding []))) = Some ''Amoxicillin 500mg twice daily''
   \<and> page (state (fst (script (idle\<lparr>radio := DirectChat\<rparr>) offline holding []))) = Some DirectChat
   \<and> btn_chat extract_and_submit = False \<and> btn_chat_no_db extract_and_submit = False
   \<and> db_insert insert_fails = Inl (Exc LibraryError ''not primary'')
   \<and> active_text (state (fst (script extract_and_submit insert_fails holding []))) = Some ''Amoxicillin 500mg twice daily''"
proof -
  have t: "extraction_transition extract_and_chat online initial_session"
    by code_simp
  have x: "extraction online = Some ''Amoxicillin 500mg twice daily''"
    by code_simp
  have n: "radio (idle\<lparr>radio := DirectChat\<rparr>) \<noteq> current_page holding"
    by (simp add: holding_def current_page_def)
  have b: "\<not> btn_chat extract_and_submit \<and> \<not> btn_chat_no_db extract_and_submit"
    by (simp add: extract_and_submit_def idle_def)
  have h: "active_text holding = Some ''Amoxicillin 500mg twice daily''"
    by (simp add: holding_def active_text_def)
  have i: "db_insert insert_fails = Inl (Exc LibraryError ''not primary'')"
    by (simp add: insert_fails_def online_def)
  from active_text_only_set_by_extraction [of extract_and_chat online initial_session "[]"]
    active_text_only_set_by_extraction [of "idle\<lparr>radio := DirectChat\<rparr>" offline holding "[]"]
    active_text_only_set_by_extraction [of extract_and_submit insert_fails holding "[]"]
    t x n b h i
  show ?thesis by simp
qed

text \<open>
  C9. Pressing the clear button leaves the history empty, and a chat panel run on the
  cleared state (with the button pressed again or not) changes nothing: clearing twice
  is clearing once, and clearing an empty history leaves it empty. Without the button no
  run of the script removes a message: the history after the run extends the one before.
\<close>

theorem clear_chat_idempotent:
  assumes "btn_clear w" and "\<not> truthy (chat_input w)" and "\<not> truthy (chat_input w')"
  shows "history (fst (display_chat_interface w e pd c)) = []
         \<and> state (fst (display_chat_interface w' e' pd' (start (state (fst (display_chat_interface w e pd c))) d')))
             = state (fst (display_chat_interface w e pd c))
         \<and> (\<not> btn_clear v \<longrightarrow>
              (\<exists>ms. session_history (state (fst (script v e s d))) = session_history s @ ms))"
proof -
  let ?c1 = "fst (display_chat_interface w e pd c)"
  from panel_clears [OF assms(1,2)] have e1: "chat_history (state ?c1) = Some []" .
  then have "history ?c1 = []"
    by (simp add: history_def)
  moreover from e1 have "chat_history (state (start (state ?c1) d')) = Some []"
    by simp
  from panel_on_empty [OF this assms(3)]
  have "state (fst (display_chat_interface w' e' pd' (start (state ?c1) d'))) = state ?c1"
    by simp
  moreover have "\<not> btn_clear v \<longrightarrow>
      (\<exists>ms. session_history (state (fst (script v e s d))) = session_history s @ ms)"
    using script_extends_history by blast
  ultimately show ?thesis by blast
qed

theorem clear_chat_idempotent_witness:
  "btn_clear press_clear \<and> chat_input press_clear = None
   \<and> history (start talked []) = [user_message ''What is the dosage?'', assistant_message (JStr ''Twice daily.'')]
   \<and> history (fst (display_chat_interface press_clear offline None (start talked []))) = []
   \<and> state (fst (display_chat_interface press_clear offline None
        (start (state (fst (display_chat_interface press_clear offline None (start talked [])))) [])))
      = state (fst (display_chat_interface press_clear offline None (start talked [])))
   \<and> btn_clear ask = False
   \<and> session_history (state (fst (script ask offline talked []))) =
        session_history talked @
          [user_message ''What is the dosage?'', assistant_message (JStr key_error_text)]"
proof -
  have b: "btn_clear press_clear"
    by (simp add: press_clear_def)
  have q: "\<not> truthy (chat_input press_clear)"
    by (simp add: press_clear_def idle_def)
  have h: "history (start talked []) = [user_message ''What is the dosage?'', assistant_message (JStr ''Twice daily.'')]"
    by (simp add: talked_def session_history_def)
  have a: "\<not> btn_clear ask"
    by (simp add: ask_def idle_def)
  have s: "session_history (state (fst (script ask offline talked []))) =
        session_history talked @
          [user_message ''What is the dosage?'', assistant_message (JStr key_error_text)]"
    by code_simp
  from clear_chat_idempotent [OF b q q, where e = offline and pd = None and c = "start talked []"
      and e' = offline and pd' = None and d' = "[]" and v = ask and s = talked and d = "[]"]
    b q h a s
  show ?thesis
    by (simp add: press_clear_def idle_def)
qed

text \<open>
  C10. An active prescription text that is the empty string counts as none on the page
  that chats with prescription data: the test is the truthiness of the string. The
  option \<^verbatim>\<open>Current Extracted Prescription\<close> is not offered, the options being those of a
  state whose text is \<^verbatim>\<open>None\<close>, and without data from the store the page ends with the
  guidance and no chat panel instead of using the empty string as prescription data.
\<close>

theorem empty_text_counts_as_none:
  assumes "current_prescription s = Some (Some [])"
    and "page s = Some ChatWithData" and "radio w = ChatWithData"
  shows "\<not> has_current_prescription s
         \<and> prescription_options e s ps = prescription_options e (s\<lparr>current_prescription := Some None\<rparr>) ps
         \<and> ''Current Extracted Prescription'' \<notin> set (prescription_options e s ps)
         \<and> (db_ping e = None \<and> db_find e = None \<and> d \<noteq> [] \<longrightarrow>
              selectors (fst (script w e s d)) =
                [Selectbox ''Choose prescription data to query''
                   (''All Prescriptions'' # record_labels e (find_sorted d))])
         \<and> (db_ping e \<noteq> None \<or> db_find e \<noteq> None \<or> d = [] \<longrightarrow>
              snd (script w e s d) = Finished
              \<and> last (rendered (fst (script w e s d))) = guidance e
              \<and> \<not> chat_panel_shown (fst (script w e s d))
              \<and> session_history (state (fst (script w e s d))) = session_history s)"
proof -
  from assms(1) have n: "\<not> has_current_prescription s"
    by (simp add: has_current_prescription_def)
  have n': "\<not> has_current_prescription (s\<lparr>current_prescription := Some None\<rparr>)"
    by (simp add: has_current_prescription_def)
  from n n' have o: "prescription_options e s ps = prescription_options e (s\<lparr>current_prescription := Some None\<rparr>) ps"
    by (simp add: prescription_options_eq)
  from n have c: "''Current Extracted Prescription'' \<notin> set (prescription_options e s ps)"
    by (simp add: prescription_options_eq record_label_not_current)
  have sel: "selectors (fst (script w e s d)) =
                [Selectbox ''Choose prescription data to query''
                   (''All Prescriptions'' # record_labels e (find_sorted d))]"
    if "db_ping e = None \<and> db_find e = None \<and> d \<noteq> []"
    using script_selector [OF assms(2,3), of e d] that n
    by (simp add: prescription_options_eq)
  have nodata: "snd (script w e s d) = Finished
              \<and> last (rendered (fst (script w e s d))) = guidance e
              \<and> \<not> chat_panel_shown (fst (script w e s d))
              \<and> session_history (state (fst (script w e s d))) = session_history s"
    if "db_ping e \<noteq> None \<or> db_find e \<noteq> None \<or> d = []"
    using no_data_guidance [OF assms(2,3) n that] by simp
  from n o c sel nodata show ?thesis
    by blast
qed

theorem empty_text_counts_as_none_witness:
  "current_prescription empty_text = Some (Some [])
   \<and> page empty_text = Some ChatWithData \<and> radio open_chat_page = ChatWithData
   \<and> has_current_prescription empty_text = False
   \<and> db_ping dated = None \<and> db_find dated = None
   \<and> selectors (fst (script open_chat_page dated empty_text [older])) =
        [Selectbox ''Choose prescription data to query'' [''All Prescriptions'', ''Prescription 1 - day 10'']]
   \<and> db_ping offline = Some (Exc LibraryError ''connection refused'')
   \<and> snd (script open_chat_page offline empty_text []) = Finished
   \<and> last (rendered (fst (script open_chat_page offline empty_text []))) =
        Warning ''No prescription data available. Please extract text first or use Direct Chat.''
   \<and> chat_panel_shown (fst (script open_chat_page offline empty_text [])) = False"
proof -
  have c: "current_prescription empty_text = Some (Some [])"
    by (simp add: empty_text_def)
  have p: "page empty_text = Some ChatWithData"
    by (simp add: empty_text_def on_chat_page_def)
  have r: "radio open_chat_page = ChatWithData"
    by (simp add: open_chat_page_def)
  have g: "db_ping dated = None" "db_find dated = None"
    by (simp_all add: dated_def online_def offline_def)
  have l: "record_labels dated (find_sorted [older]) = [''Prescription 1 - day 10'']"
    by code_simp
  have q: "db_ping offline = Some (Exc LibraryError ''connection refused'')"
    by (simp add: offline_def)
  from empty_text_counts_as_none [OF c p r, of dated "[]" "[older]"]
    empty_text_counts_as_none [OF c p r, of offline "[]" "[]"]
    c p r g l q
  show ?thesis
    by (simp add: guidance_def)
qed

end
